theory Spec2Isabelle
  imports Main "HOL-Library.Multiset" "HOL-Library.AList"
begin

section \<open>Workflow Logger: the aggregation of execution reports into one log row\<close>

text \<open>
  The node \<^verbatim>\<open>WorkflowLogger.execute\<close> folds the input items (one execution report per
  upstream batch) into one aggregated log entry and hands it to \<^verbatim>\<open>insertLog\<close>, which
  inserts one row through a MySQL connection.

  Conventions of the embedding.
  \<^item> JavaScript numbers that count items are modelled as unbounded \<open>int\<close>: the model is
    exact for integral counts inside the range where doubles add exactly, and it does not
    cover fractional values, \<^verbatim>\<open>NaN\<close> or infinities in the numeric fields of a report.
  \<^item> An optional property (\<^verbatim>\<open>undefined\<close>, \<^verbatim>\<open>null\<close> or absent) is \<open>None\<close>.
  \<^item> The fields of a report have the types the interfaces \<^verbatim>\<open>ISummary\<close> and
    \<^verbatim>\<open>IExecution\<close> declare; an object of type \<^verbatim>\<open>Record<string, number>\<close> is the list of
    its own entries, a report's in the order \<^verbatim>\<open>Object.entries\<close> yields them and the merged
    one in the order the properties were created. A property read on the merged object,
    which is created as \<^verbatim>\<open>{}\<close>, falls back to the members of \<^verbatim>\<open>Object.prototype\<close>.
  \<^item> Strings are lists of code units below 256.
  \<^item> Diagnostic output (\<^verbatim>\<open>this.logger\<close>, under \<^verbatim>\<open>verboseLogging\<close> and in \<^verbatim>\<open>catch\<close>) is not
    part of the state.
\<close>

subsection \<open>Data model\<close>

datatype json =
    JNull
  | JBool bool
  | JNum int
  | JStr string
  | JArr "json list"
  | JObj "(string \<times> json) list"

text \<open>The result of \<^verbatim>\<open>parseInt\<close>: a number, or \<^verbatim>\<open>NaN\<close>.\<close>

datatype js_number = NaN | Num int

text \<open>
  A value stored in the merged event summary: a number, or the string that \<^verbatim>\<open>+\<close> gives
  when its left operand is not a number.
\<close>

datatype js_primitive = JsNumber int | JsString string

text \<open>
  What reading a property of the merged event summary yields: an own value, a built-in
  function of \<^verbatim>\<open>Object.prototype\<close> (by its name), \<^verbatim>\<open>Object.prototype\<close> itself, or
  \<^verbatim>\<open>undefined\<close>.
\<close>

datatype js_value = Primitive js_primitive | NativeFunction string | ObjectPrototype | Undefined

record ISummary =
  total_input :: "int option"
  new_items :: "int option"
  exact_duplicates :: "int option"
  updated_items :: "int option"
  event_summary :: "(string \<times> int) list option"
  failed_items :: "int option"

record IExecution =
  mode :: "string option"
  script_id :: "string option"

text \<open>\<^verbatim>\<open>details\<close> has type \<^verbatim>\<open>any\<close>; the code reads \<^verbatim>\<open>details.sent_items?.items\<close> only.\<close>

record ISentItems =
  items :: "json list option"

record IDetails =
  sent_items :: "ISentItems option"

text \<open>One input item's \<^verbatim>\<open>json\<close>: an execution report.\<close>

record input_json =
  summary :: "ISummary option"
  execution :: "IExecution option"
  details :: "IDetails option"

record ILogData =
  script_id :: int
  execution_mode :: string
  execution_type :: string
  workflow_name :: string
  status :: string
  items_processed :: int
  items_new :: int
  items_duplicates :: int
  items_updated :: int
  event_summary :: string
  full_details :: string

text \<open>The local variables of \<^verbatim>\<open>execute\<close> that the loop updates (source lines 127 to 135).\<close>

record agg_state =
  totalItemsProcessed :: int
  totalItemsNew :: int
  totalItemsDuplicates :: int
  totalItemsUpdated :: int
  allTransactionItems :: "json list"
  mergedEventSummary :: "(string \<times> js_primitive) list"
  hasFailures :: bool
  firstExecution :: "IExecution option"
  scriptId :: "js_number option"

subsection \<open>JavaScript operators on optional values\<close>

text \<open>\<^verbatim>\<open>x || d\<close> on a number: \<^verbatim>\<open>undefined\<close> and \<open>0\<close> are falsy.\<close>

fun num_or :: "int option \<Rightarrow> int \<Rightarrow> int" where
  "num_or None d = d"
| "num_or (Some n) d = (if n = 0 then d else n)"

text \<open>\<^verbatim>\<open>x ?? d\<close> on a number: only \<^verbatim>\<open>undefined\<close> and \<^verbatim>\<open>null\<close> take the default.\<close>

fun num_nullish :: "int option \<Rightarrow> int \<Rightarrow> int" where
  "num_nullish None d = d"
| "num_nullish (Some n) d = n"

text \<open>\<^verbatim>\<open>x || d\<close> on a string: \<^verbatim>\<open>undefined\<close> and the empty string are falsy.\<close>

fun str_or :: "string option \<Rightarrow> string \<Rightarrow> string" where
  "str_or None d = d"
| "str_or (Some s) d = (if s = [] then d else s)"

text \<open>\<^verbatim>\<open>x || d\<close> on an object or an array: every object is truthy.\<close>

fun obj_or :: "'a option \<Rightarrow> 'a \<Rightarrow> 'a" where
  "obj_or None d = d"
| "obj_or (Some x) d = x"

text \<open>\<^verbatim>\<open>x?.f\<close>: \<^verbatim>\<open>undefined\<close> when \<open>x\<close> is nullish.\<close>

fun opt_chain :: "'a option \<Rightarrow> ('a \<Rightarrow> 'b option) \<Rightarrow> 'b option" where
  "opt_chain None f = None"
| "opt_chain (Some x) f = f x"

text \<open>The object literal \<^verbatim>\<open>{}\<close> at each of the three types.\<close>

definition empty_summary :: ISummary where
  "empty_summary =
     \<lparr>total_input = None, new_items = None, exact_duplicates = None, updated_items = None,
      ISummary.event_summary = None, failed_items = None\<rparr>"

definition empty_execution :: IExecution where
  "empty_execution = \<lparr>mode = None, IExecution.script_id = None\<rparr>"

definition empty_details :: IDetails where
  "empty_details = \<lparr>sent_items = None\<rparr>"

subsection \<open>\<^verbatim>\<open>parseInt(s, 10)\<close>\<close>

text \<open>
  \<^verbatim>\<open>parseInt\<close> with radix 10 skips leading white space, reads an optional sign, and takes
  the longest run of decimal digits that follows; with no digit the result is \<^verbatim>\<open>NaN\<close>.
  Whatever follows the digits is ignored. The white space characters below 256 are
  TAB, LF, VT, FF, CR, SP and NBSP.
\<close>

definition is_white_space :: "char \<Rightarrow> bool" where
  "is_white_space c \<longleftrightarrow>
     c = CHR 0x09 \<or> c = CHR 0x0A \<or> c = CHR 0x0B \<or> c = CHR 0x0C \<or> c = CHR 0x0D \<or>
     c = CHR 0x20 \<or> c = CHR 0xA0"

definition digit_value :: "char \<Rightarrow> int option" where
  "digit_value c = map_of (zip ''0123456789'' [0, 1, 2, 3, 4, 5, 6, 7, 8, 9]) c"

text \<open>The value of the longest prefix of decimal digits, and whether a digit was read.\<close>

fun read_digits :: "string \<Rightarrow> int \<Rightarrow> bool \<Rightarrow> js_number" where
  "read_digits [] acc seen = (if seen then Num acc else NaN)"
| "read_digits (c # cs) acc seen =
     (case digit_value c of
        None \<Rightarrow> (if seen then Num acc else NaN)
      | Some d \<Rightarrow> read_digits cs (10 * acc + d) True)"

fun negate :: "js_number \<Rightarrow> js_number" where
  "negate NaN = NaN"
| "negate (Num n) = Num (- n)"

definition parseInt :: "string \<Rightarrow> js_number" where
  "parseInt s =
     (case dropWhile is_white_space s of
        [] \<Rightarrow> NaN
      | c # cs \<Rightarrow>
          if c = CHR ''-'' then negate (read_digits cs 0 False)
          else if c = CHR ''+'' then read_digits cs 0 False
          else read_digits (c # cs) 0 False)"

subsection \<open>The aggregation loop (source lines 138 to 172)\<close>

text \<open>
  The merged event summary is the object literal \<^verbatim>\<open>{}\<close>, so a key it does not own is looked
  up in \<^verbatim>\<open>Object.prototype\<close>: \<^verbatim>\<open>constructor\<close> is the function \<^verbatim>\<open>Object\<close>, ten more names
  are built-in methods, and \<^verbatim>\<open>__proto__\<close> is an accessor whose getter returns
  \<^verbatim>\<open>Object.prototype\<close>.
\<close>

definition object_prototype_methods :: "string list" where
  "object_prototype_methods =
     [''hasOwnProperty'', ''isPrototypeOf'', ''propertyIsEnumerable'', ''toLocaleString'',
      ''toString'', ''valueOf'', ''__defineGetter__'', ''__defineSetter__'',
      ''__lookupGetter__'', ''__lookupSetter__'']"

definition object_prototype_get :: "string \<Rightarrow> js_value" where
  "object_prototype_get key =
     (if key = ''__proto__'' then ObjectPrototype
      else if key = ''constructor'' then NativeFunction ''Object''
      else if List.member object_prototype_methods key then NativeFunction key
      else Undefined)"

text \<open>\<^verbatim>\<open>obj[key]\<close>: the own property, else the inherited one.\<close>

definition get_property :: "(string \<times> js_primitive) list \<Rightarrow> string \<Rightarrow> js_value" where
  "get_property obj key =
     (case map_of obj key of Some v \<Rightarrow> Primitive v | None \<Rightarrow> object_prototype_get key)"

text \<open>
  \<^verbatim>\<open>obj[key] = v\<close> for a number or a string \<open>v\<close>. The key \<^verbatim>\<open>__proto__\<close> reaches the
  inherited setter, which ignores a value that is neither an object nor \<^verbatim>\<open>null\<close>. Any other
  key becomes an own property, last in the order of creation, or keeps its place when the
  object owns it already.
\<close>

definition set_property ::
  "(string \<times> js_primitive) list \<Rightarrow> string \<Rightarrow> js_primitive \<Rightarrow> (string \<times> js_primitive) list" where
  "set_property obj key v = (if key = ''__proto__'' then obj else AList.update key v obj)"

text \<open>\<^verbatim>\<open>Number::toString\<close> of an integer: its decimal digits, after \<^verbatim>\<open>-\<close> when negative.\<close>

definition digit_char :: "nat \<Rightarrow> char" where
  "digit_char d = ''0123456789'' ! d"

fun nat_to_string :: "nat \<Rightarrow> string" where
  "nat_to_string n =
     (if n < 10 then [digit_char n] else nat_to_string (n div 10) @ [digit_char (n mod 10)])"

declare nat_to_string.simps [simp del]

definition number_to_string :: "int \<Rightarrow> string" where
  "number_to_string n =
     (if n < 0 then CHR ''-'' # nat_to_string (nat (- n)) else nat_to_string (nat n))"

text \<open>The source text of a built-in function, as Node.js prints it.\<close>

definition native_function_text :: "string \<Rightarrow> string" where
  "native_function_text name = ''function '' @ name @ ''() { [native code] }''"

text \<open>
  \<^verbatim>\<open>(x || 0) + count\<close> with \<open>count\<close> a number. A falsy \<open>x\<close> (\<^verbatim>\<open>undefined\<close>, 0, the empty
  string) gives way to 0. A number is added to; a string, a function and an object are
  turned into a string, to which the digits of \<open>count\<close> are appended.
\<close>

fun or_zero_plus :: "js_value \<Rightarrow> int \<Rightarrow> js_primitive" where
  "or_zero_plus Undefined cnt = JsNumber (0 + cnt)"
| "or_zero_plus (Primitive (JsNumber n)) cnt = JsNumber ((if n = 0 then 0 else n) + cnt)"
| "or_zero_plus (Primitive (JsString s)) cnt =
     (if s = [] then JsNumber (0 + cnt) else JsString (s @ number_to_string cnt))"
| "or_zero_plus (NativeFunction name) cnt =
     JsString (native_function_text name @ number_to_string cnt)"
| "or_zero_plus ObjectPrototype cnt = JsString (''[object Object]'' @ number_to_string cnt)"

text \<open>
  \<^verbatim>\<open>mergedEventSummary[event] = (mergedEventSummary[event] || 0) + count\<close> for each entry
  of the report's \<^verbatim>\<open>event_summary\<close>.
\<close>

definition merge_entry ::
  "string \<times> int \<Rightarrow> (string \<times> js_primitive) list \<Rightarrow> (string \<times> js_primitive) list" where
  "merge_entry entry merged =
     (case entry of (event, cnt) \<Rightarrow>
        set_property merged event (or_zero_plus (get_property merged event) cnt))"

definition merge_event_summary ::
  "(string \<times> int) list \<Rightarrow> (string \<times> js_primitive) list \<Rightarrow> (string \<times> js_primitive) list" where
  "merge_event_summary entries merged = fold merge_entry entries merged"

text \<open>The block under \<^verbatim>\<open>if (i === 0)\<close> (source lines 145 to 149).\<close>

definition capture_first :: "input_json \<Rightarrow> agg_state \<Rightarrow> agg_state" where
  "capture_first input st =
     (let execution = obj_or (input_json.execution input) empty_execution
      in st\<lparr>firstExecution := Some execution,
            scriptId := (case IExecution.script_id execution of
                           None \<Rightarrow> None
                         | Some s \<Rightarrow> if s = [] then None else Some (parseInt s))\<rparr>)"

text \<open>The rest of the loop body (source lines 151 to 171).\<close>

definition accumulate :: "input_json \<Rightarrow> agg_state \<Rightarrow> agg_state" where
  "accumulate input st =
     (let summary = obj_or (input_json.summary input) empty_summary;
          details = obj_or (input_json.details input) empty_details;
          st2 = st\<lparr>totalItemsProcessed := totalItemsProcessed st + num_or (total_input summary) 0,
                   totalItemsNew := totalItemsNew st + num_or (new_items summary) 0,
                   totalItemsDuplicates :=
                     totalItemsDuplicates st + num_or (exact_duplicates summary) 0,
                   totalItemsUpdated := totalItemsUpdated st + num_or (updated_items summary) 0\<rparr>;
          st3 = (if num_nullish (failed_items summary) 0 > 0
                 then st2\<lparr>hasFailures := True\<rparr> else st2);
          st4 = (case ISummary.event_summary summary of
                   None \<Rightarrow> st3
                 | Some entries \<Rightarrow>
                     st3\<lparr>mergedEventSummary :=
                           merge_event_summary entries (mergedEventSummary st3)\<rparr>);
          sentItems = obj_or (opt_chain (sent_items details) items) []
      in st4\<lparr>allTransactionItems := allTransactionItems st4 @ sentItems\<rparr>)"

definition loop_body :: "nat \<Rightarrow> input_json \<Rightarrow> agg_state \<Rightarrow> agg_state" where
  "loop_body i input st = accumulate input (if i = 0 then capture_first input st else st)"

function loop :: "input_json list \<Rightarrow> nat \<Rightarrow> agg_state \<Rightarrow> agg_state" where
  "loop inputData i st =
     (if i < length inputData
      then loop inputData (i + 1) (loop_body i (inputData ! i) st)
      else st)"
  by pat_completeness auto
termination
  by (relation "measure (\<lambda>(inputData, i, st). length inputData - i)") auto

declare loop.simps [simp del]

definition initial_state :: agg_state where
  "initial_state =
     \<lparr>totalItemsProcessed = 0, totalItemsNew = 0, totalItemsDuplicates = 0,
      totalItemsUpdated = 0, allTransactionItems = [], mergedEventSummary = [],
      hasFailures = False, firstExecution = None, scriptId = None\<rparr>"

definition aggregate :: "input_json list \<Rightarrow> agg_state" where
  "aggregate inputData = loop inputData 0 initial_state"

subsection \<open>The host and the database driver\<close>

text \<open>
  What \<^verbatim>\<open>execute\<close> and \<^verbatim>\<open>insertLog\<close> obtain from the n8n host, from the JavaScript
  runtime and from the \<^verbatim>\<open>mysql2\<close> driver. A call that can throw carries the message of
  the error it throws (\<open>Inl\<close> or \<open>Some\<close>).
\<close>

record ICredentials =
  host :: string
  port :: int
  user :: string
  password :: string

text \<open>The argument of \<^verbatim>\<open>createConnection\<close>: host, port, database, user, password.\<close>

datatype connection_config = ConnectionConfig string int string string string

datatype sql_value = SqlNumber int | SqlString string

text \<open>
  The statement text of \<^verbatim>\<open>insertLog\<close>:
  \<^verbatim>\<open>INSERT INTO ${database}.${table} (columns) VALUES (?, ..., ?)\<close>, kept as the database,
  the table, the column names in their order and the number of placeholders.
\<close>

datatype sql_insert = InsertInto string string "string list" nat

text \<open>The calls of \<^verbatim>\<open>connection.execute\<close> made so far: statement and parameter row.\<close>

type_synonym sink_log = "(sql_insert \<times> sql_value list) list"

record host_env =
  getMode :: string
  getWorkflow_name :: "string option"
  toISOString_now :: string
  JSON_stringify :: "json \<Rightarrow> string"
  getCredentials :: "string + ICredentials"
  require_mysql2 :: "string option"
  createConnection :: "connection_config \<Rightarrow> string option"
  connection_execute :: "sql_insert \<Rightarrow> sql_value list \<Rightarrow> string option"
  connection_end :: "string option"

record node_options =
  failOnError :: "bool option"
  verboseLogging :: "bool option"

fun opt_true :: "bool option \<Rightarrow> bool" where
  "opt_true None = False"
| "opt_true (Some b) = b"

datatype js_error = NodeOperationError string | DriverError string

fun message :: "js_error \<Rightarrow> string" where
  "message (NodeOperationError m) = m"
| "message (DriverError m) = m"

subsection \<open>\<^verbatim>\<open>insertLog\<close> (source lines 258 to 304)\<close>

definition insert_query :: "string \<Rightarrow> string \<Rightarrow> sql_insert" where
  "insert_query database table =
     InsertInto database table
       [''script_id'', ''execution_mode'', ''execution_type'', ''workflow_name'', ''status'',
        ''items_processed'', ''items_new'', ''items_duplicates'', ''items_updated'',
        ''event_summary'', ''full_details'']
       11"

definition query_params :: "ILogData \<Rightarrow> sql_value list" where
  "query_params logData =
     [SqlNumber (ILogData.script_id logData),
      SqlString (execution_mode logData),
      SqlString (execution_type logData),
      SqlString (workflow_name logData),
      SqlString (status logData),
      SqlNumber (items_processed logData),
      SqlNumber (items_new logData),
      SqlNumber (items_duplicates logData),
      SqlNumber (items_updated logData),
      SqlString (ILogData.event_summary logData),
      SqlString (full_details logData)]"

text \<open>
  The statement runs inside \<^verbatim>\<open>try\<close> with \<^verbatim>\<open>connection.end()\<close> in \<^verbatim>\<open>finally\<close>: an error
  of \<^verbatim>\<open>end\<close> replaces the one of \<^verbatim>\<open>execute\<close>.
\<close>

definition insertLog ::
  "host_env \<Rightarrow> string \<Rightarrow> string \<Rightarrow> ILogData \<Rightarrow> sink_log \<Rightarrow> (js_error + unit) \<times> sink_log" where
  "insertLog env database table logData sink =
     (case getCredentials env of
        Inl m \<Rightarrow> (Inl (DriverError m), sink)
      | Inr credentials \<Rightarrow>
          (case require_mysql2 env of
             Some m \<Rightarrow> (Inl (DriverError m), sink)
           | None \<Rightarrow>
               (case createConnection env
                       (ConnectionConfig (host credentials) (port credentials) database
                          (user credentials) (password credentials)) of
                  Some m \<Rightarrow> (Inl (DriverError m), sink)
                | None \<Rightarrow>
                    (let query = insert_query database table;
                         params = query_params logData;
                         executed = connection_execute env query params;
                         sink' = sink @ [(query, params)]
                     in case connection_end env of
                          Some m \<Rightarrow> (Inl (DriverError m), sink')
                        | None \<Rightarrow>
                            (case executed of
                               Some m \<Rightarrow> (Inl (DriverError m), sink')
                             | None \<Rightarrow> (Inr (), sink'))))))"

subsection \<open>\<^verbatim>\<open>execute\<close> after the loop (source lines 174 to 255)\<close>

definition missing_script_id_message :: string where
  "missing_script_id_message =
     ''Could not extract script_id from input data. Make sure this node receives data with execution information.''"

text \<open>The number \<^verbatim>\<open>scriptId\<close> holds when \<^verbatim>\<open>!scriptId\<close> is false: not \<^verbatim>\<open>null\<close>, \<^verbatim>\<open>NaN\<close> or 0.\<close>

fun truthy_number :: "js_number option \<Rightarrow> int option" where
  "truthy_number None = None"
| "truthy_number (Some NaN) = None"
| "truthy_number (Some (Num n)) = (if n = 0 then None else Some n)"

text \<open>Source lines 186 to 189.\<close>

definition resolve_mode :: "string \<Rightarrow> IExecution option \<Rightarrow> string" where
  "resolve_mode executionMode first =
     (if executionMode = ''auto''
      then (case first of
              None \<Rightarrow> executionMode
            | Some e \<Rightarrow> str_or (mode e) ''regular'')
      else executionMode)"

text \<open>
  An object lists its own properties with the array indices first, in ascending order, and
  the other keys after them in the order of their creation. An array index is the decimal
  numeral, without sign or leading zero, of a number below \<open>2\<^sup>3\<^sup>2 - 1\<close>.
\<close>

definition is_digit :: "char \<Rightarrow> bool" where
  "is_digit c = (case digit_value c of None \<Rightarrow> False | Some d \<Rightarrow> True)"

definition array_index :: "string \<Rightarrow> nat option" where
  "array_index key =
     (case key of
        [] \<Rightarrow> None
      | c # cs \<Rightarrow>
          if list_all is_digit key \<and> (if c = CHR ''0'' then cs = [] else True)
          then (case read_digits key 0 False of
                  NaN \<Rightarrow> None
                | Num n \<Rightarrow> if n < 2 ^ 32 - 1 then Some (nat n) else None)
          else None)"

definition index_of_entry :: "string \<times> 'a \<Rightarrow> nat" where
  "index_of_entry entry = (case array_index (fst entry) of None \<Rightarrow> 0 | Some i \<Rightarrow> i)"

definition is_index_entry :: "string \<times> 'a \<Rightarrow> bool" where
  "is_index_entry entry = (case array_index (fst entry) of None \<Rightarrow> False | Some i \<Rightarrow> True)"

definition own_property_entries :: "(string \<times> 'a) list \<Rightarrow> (string \<times> 'a) list" where
  "own_property_entries obj =
     sort_key index_of_entry (filter is_index_entry obj) @
     filter (\<lambda>entry. \<not> is_index_entry entry) obj"

text \<open>
  \<^verbatim>\<open>JSON.stringify\<close>, a function of the host, receives the merged object and the array of
  collected items.
\<close>

fun primitive_json :: "js_primitive \<Rightarrow> json" where
  "primitive_json (JsNumber n) = JNum n"
| "primitive_json (JsString s) = JStr s"

definition event_summary_json :: "(string \<times> js_primitive) list \<Rightarrow> json" where
  "event_summary_json merged =
     JObj (map (\<lambda>entry. (fst entry, primitive_json (snd entry))) (own_property_entries merged))"

text \<open>Source lines 191 to 215, with \<open>n\<close> the number in \<^verbatim>\<open>scriptId\<close>.\<close>

definition make_log_data :: "host_env \<Rightarrow> string \<Rightarrow> agg_state \<Rightarrow> int \<Rightarrow> ILogData" where
  "make_log_data env executionMode st n =
     \<lparr>ILogData.script_id = n,
      execution_mode = resolve_mode executionMode (firstExecution st),
      execution_type = (if getMode env = ''manual'' then ''manual'' else ''scheduled''),
      workflow_name = str_or (getWorkflow_name env) ''Unknown'',
      status = (if hasFailures st then ''failed'' else ''success''),
      items_processed = totalItemsProcessed st,
      items_new = totalItemsNew st,
      items_duplicates = totalItemsDuplicates st,
      items_updated = totalItemsUpdated st,
      ILogData.event_summary = JSON_stringify env (event_summary_json (mergedEventSummary st)),
      full_details = JSON_stringify env (JArr (allTransactionItems st))\<rparr>"

text \<open>
  The objects pushed to \<^verbatim>\<open>results\<close>:
  \<^verbatim>\<open>{success: true, logged_at, script_id, batches_aggregated, log_data}\<close> and
  \<^verbatim>\<open>{success: false, error, script_id}\<close>. The constant \<^verbatim>\<open>pairedItem: 0\<close> beside each is
  left out.
\<close>

datatype result_json =
    Success string int nat ILogData
  | Failure string "js_number option"

text \<open>The body of \<^verbatim>\<open>try\<close>: the error it throws, or the object it pushes.\<close>

definition try_block ::
  "host_env \<Rightarrow> string \<Rightarrow> string \<Rightarrow> string \<Rightarrow> nat \<Rightarrow> agg_state \<Rightarrow> sink_log
     \<Rightarrow> (js_error + result_json) \<times> sink_log" where
  "try_block env database table executionMode batches st sink =
     (case truthy_number (scriptId st) of
        None \<Rightarrow> (Inl (NodeOperationError missing_script_id_message), sink)
      | Some n \<Rightarrow>
          (let logData = make_log_data env executionMode st n
           in case insertLog env database table logData sink of
                (Inl e, sink') \<Rightarrow> (Inl e, sink')
              | (Inr u, sink') \<Rightarrow>
                  (Inr (Success (toISOString_now env) n batches logData), sink')))"

datatype outcome = Thrown js_error | Returned "result_json list list"

definition execute ::
  "host_env \<Rightarrow> string \<Rightarrow> string \<Rightarrow> string \<Rightarrow> node_options \<Rightarrow> input_json list \<Rightarrow> sink_log
     \<Rightarrow> outcome \<times> sink_log" where
  "execute env database table executionMode opts inputData sink =
     (let st = aggregate inputData
      in case try_block env database table executionMode (length inputData) st sink of
           (Inr r, sink') \<Rightarrow> (Returned [[r]], sink')
         | (Inl e, sink') \<Rightarrow>
             if opt_true (failOnError opts)
             then (Thrown (NodeOperationError (''Failed to log execution: '' @ message e)), sink')
             else (Returned [[Failure (message e) (scriptId st)]], sink'))"

subsection \<open>The specification's reading of a report\<close>

text \<open>
  A field of \<^verbatim>\<open>summary\<close>, missing when \<^verbatim>\<open>summary\<close> itself is missing; a missing number
  counted as 0.
\<close>

definition report_field :: "(ISummary \<Rightarrow> 'a option) \<Rightarrow> input_json \<Rightarrow> 'a option" where
  "report_field f r = (case input_json.summary r of None \<Rightarrow> None | Some s \<Rightarrow> f s)"

definition missing_as_zero :: "int option \<Rightarrow> int" where
  "missing_as_zero x = (case x of None \<Rightarrow> 0 | Some n \<Rightarrow> n)"

definition sum_of_field :: "(ISummary \<Rightarrow> int option) \<Rightarrow> input_json list \<Rightarrow> int" where
  "sum_of_field f inputData = sum_list (map (\<lambda>r. missing_as_zero (report_field f r)) inputData)"

text \<open>A report has failed items when its \<^verbatim>\<open>failed_items\<close> is present and positive.\<close>

definition report_has_failed :: "input_json \<Rightarrow> bool" where
  "report_has_failed r =
     (case report_field failed_items r of None \<Rightarrow> False | Some n \<Rightarrow> 0 < n)"

text \<open>The entries of a report's \<^verbatim>\<open>event_summary\<close>, and the count it holds for one event.\<close>

definition report_entries :: "input_json \<Rightarrow> (string \<times> int) list" where
  "report_entries r =
     (case report_field ISummary.event_summary r of None \<Rightarrow> [] | Some entries \<Rightarrow> entries)"

definition report_event_count :: "string \<Rightarrow> input_json \<Rightarrow> int" where
  "report_event_count event r = missing_as_zero (map_of (report_entries r) event)"

definition report_has_event :: "string \<Rightarrow> input_json \<Rightarrow> bool" where
  "report_has_event event r = (event \<in> set (map fst (report_entries r)))"

text \<open>
  An ordinary event name is one that \<^verbatim>\<open>Object.prototype\<close> does not have; a report is
  ordinary when all its event names are.
\<close>

definition ordinary_event :: "string \<Rightarrow> bool" where
  "ordinary_event key = (object_prototype_get key = Undefined)"

definition ordinary_events :: "input_json \<Rightarrow> bool" where
  "ordinary_events r = list_all ordinary_event (map fst (report_entries r))"

text \<open>The number stored under a key, 0 when there is none; an object that stores numbers only.\<close>

definition stored_count :: "js_primitive option \<Rightarrow> int" where
  "stored_count v = (case v of None \<Rightarrow> 0 | Some (JsNumber n) \<Rightarrow> n | Some (JsString s) \<Rightarrow> 0)"

definition only_numbers :: "(string \<times> js_primitive) list \<Rightarrow> bool" where
  "only_numbers obj =
     list_all (\<lambda>entry. case snd entry of JsNumber n \<Rightarrow> True | JsString s \<Rightarrow> False) obj"

text \<open>An object has each of its keys once.\<close>

definition distinct_keys :: "input_json \<Rightarrow> bool" where
  "distinct_keys r = distinct (map fst (report_entries r))"

text \<open>\<^verbatim>\<open>details.sent_items.items\<close> of a report, missing at any level read as no items.\<close>

definition report_items :: "input_json \<Rightarrow> json list" where
  "report_items r =
     (case input_json.details r of
        None \<Rightarrow> []
      | Some d \<Rightarrow>
          (case sent_items d of
             None \<Rightarrow> []
           | Some si \<Rightarrow> (case items si of None \<Rightarrow> [] | Some xs \<Rightarrow> xs)))"

text \<open>The fields of \<^verbatim>\<open>execution\<close>, missing when \<^verbatim>\<open>execution\<close> itself is missing.\<close>

definition report_mode :: "input_json \<Rightarrow> string option" where
  "report_mode r = (case input_json.execution r of None \<Rightarrow> None | Some e \<Rightarrow> mode e)"

definition report_script_id :: "input_json \<Rightarrow> string option" where
  "report_script_id r =
     (case input_json.execution r of None \<Rightarrow> None | Some e \<Rightarrow> IExecution.script_id e)"

text \<open>
  The mode as the specification resolves it: the setting unless it is \<^verbatim>\<open>auto\<close>, else the
  first report's \<^verbatim>\<open>execution.mode\<close>, else \<^verbatim>\<open>regular\<close>.
\<close>

definition spec_mode :: "string \<Rightarrow> input_json \<Rightarrow> string" where
  "spec_mode executionMode first =
     (if executionMode \<noteq> ''auto'' then executionMode
      else (case report_mode first of None \<Rightarrow> ''regular'' | Some m \<Rightarrow> m))"

text \<open>
  The first report lacks a parseable \<^verbatim>\<open>execution.script_id\<close>: there is no first report,
  the field is absent, or \<^verbatim>\<open>parseInt\<close> finds no number in it.
\<close>

definition lacks_parseable_id :: "input_json list \<Rightarrow> bool" where
  "lacks_parseable_id inputData =
     (case inputData of
        [] \<Rightarrow> True
      | first # rest \<Rightarrow>
          (case report_script_id first of None \<Rightarrow> True | Some s \<Rightarrow> parseInt s = NaN))"

text \<open>
  The first report gives no usable identifier: it lacks a parseable one, or the one it has
  parses to 0.
\<close>

definition no_usable_id :: "input_json list \<Rightarrow> bool" where
  "no_usable_id inputData =
     (case inputData of
        [] \<Rightarrow> True
      | first # rest \<Rightarrow>
          (case report_script_id first of
             None \<Rightarrow> True
           | Some s \<Rightarrow> parseInt s = NaN \<or> parseInt s = Num 0))"

text \<open>
  A report with every optional field missing: each of \<^verbatim>\<open>summary\<close>, \<^verbatim>\<open>execution\<close> and
  \<^verbatim>\<open>details\<close> is absent or an object with no field set.
\<close>

definition all_fields_missing :: "input_json \<Rightarrow> bool" where
  "all_fields_missing r \<longleftrightarrow>
     (input_json.summary r = None \<or> input_json.summary r = Some empty_summary) \<and>
     (input_json.execution r = None \<or> input_json.execution r = Some empty_execution) \<and>
     (input_json.details r = None \<or> input_json.details r = Some empty_details \<or>
      input_json.details r = Some \<lparr>sent_items = Some \<lparr>items = None\<rparr>\<rparr>)"

text \<open>
  The driver connects: the credentials are there, \<^verbatim>\<open>mysql2\<close> loads and the connection to
  the database opens.
\<close>

definition driver_connects :: "host_env \<Rightarrow> string \<Rightarrow> bool" where
  "driver_connects env database =
     (case getCredentials env of
        Inl m \<Rightarrow> False
      | Inr credentials \<Rightarrow>
          require_mysql2 env = None \<and>
          createConnection env
            (ConnectionConfig (host credentials) (port credentials) database
               (user credentials) (password credentials)) = None)"

text \<open>The operation ends in the missing-identifier error: thrown, or reported in the result.\<close>

definition missing_identifier_outcome :: "node_options \<Rightarrow> js_number option \<Rightarrow> outcome" where
  "missing_identifier_outcome opts sid =
     (if opt_true (failOnError opts)
      then Thrown (NodeOperationError (''Failed to log execution: '' @ missing_script_id_message))
      else Returned [[Failure missing_script_id_message sid]])"

subsection \<open>The text \<^verbatim>\<open>JSON.stringify\<close> produces\<close>

text \<open>
  \<^verbatim>\<open>JSON.stringify\<close> with one argument, on the values of type \<open>json\<close>: no white space, the
  members of an object in the order given, a string between double quotes with the double
  quote, the backslash and the control characters escaped.
\<close>

definition hex_digit :: "nat \<Rightarrow> char" where
  "hex_digit d = ''0123456789abcdef'' ! d"

definition quote_char :: "char \<Rightarrow> string" where
  "quote_char c =
     (if c = CHR 0x22 then [CHR 0x5C, CHR 0x22]
      else if c = CHR 0x5C then [CHR 0x5C, CHR 0x5C]
      else if c = CHR 0x08 then [CHR 0x5C, CHR ''b'']
      else if c = CHR 0x0C then [CHR 0x5C, CHR ''f'']
      else if c = CHR 0x0A then [CHR 0x5C, CHR ''n'']
      else if c = CHR 0x0D then [CHR 0x5C, CHR ''r'']
      else if c = CHR 0x09 then [CHR 0x5C, CHR ''t'']
      else if (of_char c :: nat) < 32
      then [CHR 0x5C, CHR ''u'', CHR ''0'', CHR ''0'',
            hex_digit (of_char c div 16), hex_digit (of_char c mod 16)]
      else [c])"

definition quote_json_string :: "string \<Rightarrow> string" where
  "quote_json_string s = CHR 0x22 # concat (map quote_char s) @ [CHR 0x22]"

fun json_text :: "json \<Rightarrow> string"
  and json_elements :: "json list \<Rightarrow> string"
  and json_members :: "(string \<times> json) list \<Rightarrow> string" where
  "json_text JNull = ''null''"
| "json_text (JBool b) = (if b then ''true'' else ''false'')"
| "json_text (JNum n) = number_to_string n"
| "json_text (JStr s) = quote_json_string s"
| "json_text (JArr xs) = ''['' @ json_elements xs @ '']''"
| "json_text (JObj ms) = ''{'' @ json_members ms @ ''}''"
| "json_elements [] = []"
| "json_elements [x] = json_text x"
| "json_elements (x # y # ys) = json_text x @ '','' @ json_elements (y # ys)"
| "json_members [] = []"
| "json_members [(k, v)] = quote_json_string k @ '':'' @ json_text v"
| "json_members ((k, v) # m # ms) =
     quote_json_string k @ '':'' @ json_text v @ '','' @ json_members (m # ms)"

text \<open>The double quote, to write the expected texts.\<close>

definition dq :: string where
  "dq = [CHR 0x22]"

subsection \<open>Sample inputs\<close>

text \<open>
  A host whose driver calls all succeed, and one whose \<^verbatim>\<open>connection.execute\<close> throws. The
  serialiser of the sample host is \<open>json_text\<close>.
\<close>

definition sample_env :: host_env where
  "sample_env =
     \<lparr>getMode = ''manual'',
      getWorkflow_name = Some ''Daily import'',
      toISOString_now = ''2025-01-01T00:00:00.000Z'',
      JSON_stringify = json_text,
      getCredentials =
        Inr \<lparr>host = ''localhost'', port = 3306, user = ''n8n'', password = ''secret''\<rparr>,
      require_mysql2 = None,
      createConnection = (\<lambda>config. None),
      connection_execute = (\<lambda>query params. None),
      connection_end = None\<rparr>"

definition failing_env :: host_env where
  "failing_env = sample_env\<lparr>connection_execute := (\<lambda>query params. Some ''ER_NO_SUCH_TABLE'')\<rparr>"

definition quiet_options :: node_options where
  "quiet_options = \<lparr>failOnError = Some False, verboseLogging = None\<rparr>"

definition loud_options :: node_options where
  "loud_options = \<lparr>failOnError = Some True, verboseLogging = None\<rparr>"

text \<open>A report that carries only \<^verbatim>\<open>execution\<close>, with the given mode and identifier.\<close>

definition id_report :: "string option \<Rightarrow> string option \<Rightarrow> input_json" where
  "id_report m s =
     \<lparr>summary = None, execution = Some \<lparr>mode = m, IExecution.script_id = s\<rparr>, details = None\<rparr>"

text \<open>The two reports of the specification's example, both under identifier 7.\<close>

definition report_A :: input_json where
  "report_A =
     \<lparr>summary = Some (empty_summary\<lparr>total_input := Some 10, new_items := Some 3,
                        ISummary.event_summary := Some [(''click'', 2), (''lead'', 1)]\<rparr>),
      execution = Some \<lparr>mode = None, IExecution.script_id = Some ''7''\<rparr>,
      details = Some \<lparr>sent_items = Some \<lparr>items = Some [JStr ''a'', JStr ''b'']\<rparr>\<rparr>\<rparr>"

definition report_B :: input_json where
  "report_B =
     \<lparr>summary = Some (empty_summary\<lparr>total_input := Some 5, exact_duplicates := Some 2,
                        ISummary.event_summary := Some [(''sale'', 4), (''click'', 1)],
                        failed_items := Some 1\<rparr>),
      execution = Some \<lparr>mode = None, IExecution.script_id = Some ''7''\<rparr>,
      details = Some \<lparr>sent_items = Some \<lparr>items = Some [JStr ''c'']\<rparr>\<rparr>\<rparr>"

definition blank_report :: input_json where
  "blank_report = \<lparr>summary = None, execution = None, details = None\<rparr>"

text \<open>A report that carries only an \<^verbatim>\<open>event_summary\<close>.\<close>

definition event_report :: "(string \<times> int) list \<Rightarrow> input_json" where
  "event_report entries =
     \<lparr>summary = Some (empty_summary\<lparr>ISummary.event_summary := Some entries\<rparr>),
      execution = None, details = None\<rparr>"

section \<open>Properties of the aggregation\<close>

subsection \<open>The loop as a fold\<close>

lemma loop_positive: "0 < i \<Longrightarrow> loop xs i st = fold accumulate (drop i xs) st"
proof (induction xs i st rule: loop.induct)
  case (1 inputData i st)
  show ?case
  proof (cases "i < length inputData")
    case True
    then have d: "drop i inputData = inputData ! i # drop (Suc i) inputData"
      by (simp add: Cons_nth_drop_Suc)
    from True "1.prems" "1.IH" have "loop inputData (i + 1) (loop_body i (inputData ! i) st)
        = fold accumulate (drop (i + 1) inputData) (loop_body i (inputData ! i) st)"
      by simp
    with True "1.prems" d show ?thesis
      by (subst loop.simps) (simp add: loop_body_def)
  next
    case False
    then show ?thesis by (subst loop.simps) simp
  qed
qed

lemma aggregate_Nil: "aggregate [] = initial_state"
  by (simp add: aggregate_def loop.simps)

lemma aggregate_Cons:
  "aggregate (r # rs) = fold accumulate (r # rs) (capture_first r initial_state)"
  unfolding aggregate_def
  by (subst loop.simps) (simp add: loop_positive loop_body_def)

subsection \<open>What one report adds\<close>

lemma num_or_zero: "num_or x 0 = missing_as_zero x"
  by (cases x) (simp_all add: missing_as_zero_def)

lemma accumulate_totals:
  "totalItemsProcessed (accumulate r st) =
     totalItemsProcessed st + missing_as_zero (report_field total_input r)"
  "totalItemsNew (accumulate r st) =
     totalItemsNew st + missing_as_zero (report_field new_items r)"
  "totalItemsDuplicates (accumulate r st) =
     totalItemsDuplicates st + missing_as_zero (report_field exact_duplicates r)"
  "totalItemsUpdated (accumulate r st) =
     totalItemsUpdated st + missing_as_zero (report_field updated_items r)"
  by (cases "input_json.summary r";
      simp add: accumulate_def Let_def num_or_zero report_field_def empty_summary_def
           split: option.splits)+

lemma accumulate_identity:
  "firstExecution (accumulate r st) = firstExecution st"
  "scriptId (accumulate r st) = scriptId st"
  by (simp_all add: accumulate_def Let_def split: option.splits)

lemma accumulate_hasFailures:
  "hasFailures (accumulate r st) = (hasFailures st \<or> report_has_failed r)"
  by (cases "input_json.summary r";
      simp add: accumulate_def Let_def report_has_failed_def report_field_def empty_summary_def
           split: option.splits)

lemma accumulate_items:
  "allTransactionItems (accumulate r st) = allTransactionItems st @ report_items r"
  by (cases "input_json.details r";
      simp add: accumulate_def Let_def report_items_def empty_details_def
           split: option.splits)

lemma accumulate_merged:
  "mergedEventSummary (accumulate r st) =
     merge_event_summary (report_entries r) (mergedEventSummary st)"
  by (cases "input_json.summary r";
      simp add: accumulate_def Let_def report_entries_def report_field_def empty_summary_def
                merge_event_summary_def
           split: option.splits)

subsection \<open>What a sequence of reports adds\<close>

lemma fold_totals:
  "totalItemsProcessed (fold accumulate rs st) = totalItemsProcessed st + sum_of_field total_input rs"
  "totalItemsNew (fold accumulate rs st) = totalItemsNew st + sum_of_field new_items rs"
  "totalItemsDuplicates (fold accumulate rs st) =
     totalItemsDuplicates st + sum_of_field exact_duplicates rs"
  "totalItemsUpdated (fold accumulate rs st) = totalItemsUpdated st + sum_of_field updated_items rs"
  by (induction rs arbitrary: st; simp add: accumulate_totals sum_of_field_def)+

lemma fold_identity:
  "firstExecution (fold accumulate rs st) = firstExecution st"
  "scriptId (fold accumulate rs st) = scriptId st"
  by (induction rs arbitrary: st; simp add: accumulate_identity)+

lemma fold_hasFailures:
  "hasFailures (fold accumulate rs st) = (hasFailures st \<or> list_ex report_has_failed rs)"
  by (induction rs arbitrary: st) (auto simp: accumulate_hasFailures)

lemma fold_items:
  "allTransactionItems (fold accumulate rs st) =
     allTransactionItems st @ concat (map report_items rs)"
  by (induction rs arbitrary: st) (simp_all add: accumulate_items)

lemma capture_first_fields:
  "totalItemsProcessed (capture_first r st) = totalItemsProcessed st"
  "totalItemsNew (capture_first r st) = totalItemsNew st"
  "totalItemsDuplicates (capture_first r st) = totalItemsDuplicates st"
  "totalItemsUpdated (capture_first r st) = totalItemsUpdated st"
  "hasFailures (capture_first r st) = hasFailures st"
  "allTransactionItems (capture_first r st) = allTransactionItems st"
  "mergedEventSummary (capture_first r st) = mergedEventSummary st"
  by (simp_all add: capture_first_def Let_def)

lemma aggregate_totals:
  "totalItemsProcessed (aggregate rs) = sum_of_field total_input rs"
  "totalItemsNew (aggregate rs) = sum_of_field new_items rs"
  "totalItemsDuplicates (aggregate rs) = sum_of_field exact_duplicates rs"
  "totalItemsUpdated (aggregate rs) = sum_of_field updated_items rs"
  by (cases rs;
      simp only: aggregate_Nil aggregate_Cons fold_totals capture_first_fields;
      simp add: initial_state_def sum_of_field_def)+

lemma aggregate_hasFailures: "hasFailures (aggregate rs) = list_ex report_has_failed rs"
  by (cases rs;
      simp only: aggregate_Nil aggregate_Cons fold_hasFailures capture_first_fields;
      simp add: initial_state_def)

lemma aggregate_items: "allTransactionItems (aggregate rs) = concat (map report_items rs)"
  by (cases rs;
      simp only: aggregate_Nil aggregate_Cons fold_items capture_first_fields;
      simp add: initial_state_def)

subsection \<open>The merged event summary\<close>

lemma only_numbers_lookup:
  "only_numbers m \<Longrightarrow> map_of m k = Some v \<Longrightarrow> \<exists>n. v = JsNumber n"
  by (induction m) (auto simp: only_numbers_def split: if_splits js_primitive.splits)

lemma only_numbers_update:
  "only_numbers m \<Longrightarrow> only_numbers (AList.update k (JsNumber x) m)"
  by (induction m) (auto simp: only_numbers_def)

lemma merge_entry_ordinary:
  assumes "ordinary_event e" and "only_numbers m"
  shows "merge_entry (e, c) m = AList.update e (JsNumber (stored_count (map_of m e) + c)) m"
proof -
  from assms(1) have key: "e \<noteq> ''__proto__''" and inherited: "object_prototype_get e = Undefined"
    by (auto simp: ordinary_event_def object_prototype_get_def)
  show ?thesis
  proof (cases "map_of m e")
    case None
    with key inherited show ?thesis
      by (simp add: merge_entry_def set_property_def get_property_def stored_count_def)
  next
    case (Some v)
    with only_numbers_lookup [OF assms(2) Some] obtain n where "map_of m e = Some (JsNumber n)"
      by auto
    with key show ?thesis
      by (simp add: merge_entry_def set_property_def get_property_def stored_count_def)
  qed
qed

lemma absent_entry_sum:
  "k \<notin> fst ` set es \<Longrightarrow> sum_list (map snd (filter (\<lambda>e. fst e = k) es)) = 0"
  by (induction es) auto

lemma merge_event_summary_ordinary:
  assumes "list_all ordinary_event (map fst es)" and "only_numbers m"
  shows "only_numbers (merge_event_summary es m) \<and>
         map_of (merge_event_summary es m) k =
           (if k \<in> set (map fst es)
            then Some (JsNumber (stored_count (map_of m k) +
                                 sum_list (map snd (filter (\<lambda>e. fst e = k) es))))
            else map_of m k)"
  using assms unfolding merge_event_summary_def
proof (induction es arbitrary: m)
  case Nil
  then show ?case by simp
next
  case (Cons a es)
  obtain e c where a: "a = (e, c)" by (cases a)
  from Cons.prems a have e: "ordinary_event e" and rest: "list_all ordinary_event (map fst es)"
    by simp_all
  let ?m = "AList.update e (JsNumber (stored_count (map_of m e) + c)) m"
  have step: "fold merge_entry (a # es) m = fold merge_entry es ?m"
    unfolding a by (simp add: merge_entry_ordinary [OF e Cons.prems(2)])
  have numbers: "only_numbers ?m"
    by (rule only_numbers_update [OF Cons.prems(2)])
  have stored: "stored_count (map_of ?m k) =
      (if k = e then stored_count (map_of m e) + c else stored_count (map_of m k))"
    by (simp add: update_conv' stored_count_def)
  have sum: "sum_list (map snd (filter (\<lambda>x. fst x = k) (a # es))) =
      (if k = e then c else 0) + sum_list (map snd (filter (\<lambda>x. fst x = k) es))"
    by (auto simp: a)
  have keys: "k \<in> set (map fst (a # es)) \<longleftrightarrow> k = e \<or> k \<in> set (map fst es)"
    by (auto simp: a)
  note ih = Cons.IH [OF rest numbers, unfolded stored]
  show ?case
  proof (cases "k \<in> set (map fst es)")
    case True
    with ih show ?thesis
      unfolding step sum keys by (simp add: add.assoc)
  next
    case False
    then have zero: "sum_list (map snd (filter (\<lambda>x. fst x = k) es)) = 0"
      by (simp add: absent_entry_sum)
    from False ih show ?thesis
      unfolding step sum keys zero by (simp add: update_conv')
  qed
qed

lemma distinct_entry_sum:
  "distinct (map fst es) \<Longrightarrow>
     sum_list (map snd (filter (\<lambda>e. fst e = k) es)) = missing_as_zero (map_of es k)"
proof (induction es)
  case Nil
  then show ?case by (simp add: missing_as_zero_def)
next
  case (Cons a es)
  then show ?case
    by (cases a) (auto simp: missing_as_zero_def filter_empty_conv map_of_eq_None_iff image_iff
                       split: option.splits)
qed

lemma absent_event_sum:
  "\<not> list_ex (report_has_event k) rs \<Longrightarrow>
     sum_list (map (\<lambda>r. sum_list (map snd (filter (\<lambda>e. fst e = k) (report_entries r)))) rs) = 0"
  by (induction rs) (simp_all add: report_has_event_def absent_entry_sum)

lemma fold_merged_ordinary:
  assumes "list_all ordinary_events rs" and "only_numbers (mergedEventSummary st)"
  shows "only_numbers (mergedEventSummary (fold accumulate rs st)) \<and>
         map_of (mergedEventSummary (fold accumulate rs st)) k =
           (if list_ex (report_has_event k) rs
            then Some (JsNumber (stored_count (map_of (mergedEventSummary st) k) +
                   sum_list (map (\<lambda>r. sum_list (map snd (filter (\<lambda>e. fst e = k)
                                                       (report_entries r)))) rs)))
            else map_of (mergedEventSummary st) k)"
  using assms
proof (induction rs arbitrary: st)
  case Nil
  then show ?case by simp
next
  case (Cons r rs)
  from Cons.prems(1) have "ordinary_events r" and rs: "list_all ordinary_events rs"
    by simp_all
  then have r: "list_all ordinary_event (map fst (report_entries r))"
    by (simp add: ordinary_events_def)
  note one = merge_event_summary_ordinary [OF r Cons.prems(2), of k]
  from one have numbers: "only_numbers (mergedEventSummary (accumulate r st))"
    by (simp add: accumulate_merged)
  have here: "k \<in> set (map fst (report_entries r)) \<longleftrightarrow> report_has_event k r"
    by (simp add: report_has_event_def)
  have none: "\<not> report_has_event k r \<Longrightarrow>
      sum_list (map snd (filter (\<lambda>e. fst e = k) (report_entries r))) = 0"
    by (simp add: report_has_event_def absent_entry_sum)
  show ?case
  proof (cases "list_ex (report_has_event k) rs")
    case True
    with Cons.IH [OF rs numbers] one none show ?thesis
      by (simp add: accumulate_merged here stored_count_def del: set_map)
  next
    case False
    with Cons.IH [OF rs numbers] one absent_event_sum [of k rs] show ?thesis
      by (simp add: accumulate_merged here stored_count_def del: set_map)
  qed
qed

lemma aggregate_merged_ordinary:
  assumes "list_all ordinary_events rs"
  shows "map_of (mergedEventSummary (aggregate rs)) k =
     (if list_ex (report_has_event k) rs
      then Some (JsNumber (sum_list (map (\<lambda>r. sum_list (map snd (filter (\<lambda>e. fst e = k)
                                                       (report_entries r)))) rs)))
      else None)"
proof (cases rs)
  case Nil
  then show ?thesis by (simp add: aggregate_Nil initial_state_def)
next
  case (Cons r rs')
  have start: "mergedEventSummary (capture_first r initial_state) = []"
    by (simp add: capture_first_fields initial_state_def)
  then have "only_numbers (mergedEventSummary (capture_first r initial_state))"
    by (simp add: only_numbers_def)
  from fold_merged_ordinary [OF assms this, of k] show ?thesis
    unfolding Cons aggregate_Cons by (simp add: start stored_count_def)
qed

lemma sum_list_mset_cong:
  "mset xs = mset ys \<Longrightarrow> sum_list (map f xs) = sum_list (map (f :: 'a \<Rightarrow> int) ys)"
proof -
  assume "mset xs = mset ys"
  then have "sum_mset (image_mset f (mset xs)) = sum_mset (image_mset f (mset ys))" by simp
  then show ?thesis by (simp only: sum_mset_sum_list flip: mset_map)
qed

lemma list_ex_mset_cong: "mset xs = mset ys \<Longrightarrow> list_ex P xs = list_ex P ys"
  by (auto simp: list_ex_iff dest: mset_eq_setD)

text \<open>
  For reports whose event names are all ordinary, the merged event summary holds exactly
  the events some report has, each with the sum of its counts, whatever the order of the
  reports.
\<close>

lemma ordinary_events_merge_to_sums:
  assumes "list_all ordinary_events rs" and "list_all distinct_keys rs"
  shows "map_of (mergedEventSummary (aggregate rs)) event =
           (if list_ex (report_has_event event) rs
            then Some (JsNumber (sum_list (map (report_event_count event) rs)))
            else None)"
proof -
  have counts: "map (\<lambda>r. sum_list (map snd (filter (\<lambda>e. fst e = event) (report_entries r)))) rs
        = map (report_event_count event) rs"
    using assms(2)
    by (intro map_cong refl)
       (auto simp: list_all_iff distinct_keys_def report_event_count_def distinct_entry_sum)
  show ?thesis
    by (simp only: aggregate_merged_ordinary [OF assms(1)] counts)
qed

lemma ordinary_events_merge_any_order:
  assumes "mset rs = mset rs'" and "list_all ordinary_events rs"
  shows "map_of (mergedEventSummary (aggregate rs)) = map_of (mergedEventSummary (aggregate rs'))"
proof
  fix k
  from assms have other: "list_all ordinary_events rs'"
    by (auto simp: list_all_iff dest: mset_eq_setD)
  show "map_of (mergedEventSummary (aggregate rs)) k = map_of (mergedEventSummary (aggregate rs')) k"
    unfolding aggregate_merged_ordinary [OF assms(2)] aggregate_merged_ordinary [OF other]
    using list_ex_mset_cong [OF assms(1), of "report_has_event k"]
      sum_list_mset_cong [OF assms(1),
        of "\<lambda>r. sum_list (map snd (filter (\<lambda>e. fst e = k) (report_entries r)))"]
    by simp
qed

subsection \<open>Running the node\<close>

lemmas run_defs =
  execute_def try_block_def insertLog_def make_log_data_def insert_query_def query_params_def
  resolve_mode_def event_summary_json_def aggregate_Nil aggregate_Cons accumulate_def
  capture_first_def merge_event_summary_def merge_entry_def set_property_def get_property_def
  object_prototype_get_def object_prototype_methods_def initial_state_def
  empty_summary_def empty_execution_def empty_details_def parseInt_def is_white_space_def
  digit_value_def missing_script_id_message_def Let_def

lemmas text_defs =
  native_function_text_def number_to_string_def nat_to_string.simps digit_char_def
  own_property_entries_def array_index_def is_index_entry_def index_of_entry_def is_digit_def
  quote_json_string_def quote_char_def hex_digit_def dq_def

lemmas sample_defs =
  sample_env_def failing_env_def quiet_options_def loud_options_def id_report_def
  report_A_def report_B_def blank_report_def event_report_def

lemma insertLog_sink:
  "snd (insertLog env database table logData sink) = sink \<or>
   snd (insertLog env database table logData sink) =
     sink @ [(insert_query database table, query_params logData)]"
  by (simp add: insertLog_def Let_def split: sum.splits option.splits)

lemma insertLog_error:
  "insertLog env database table logData sink = (Inl e, sink') \<Longrightarrow> \<exists>m. e = DriverError m"
  by (auto simp: insertLog_def Let_def split: sum.splits option.splits)

lemma insertLog_ok:
  "insertLog env database table logData sink = (Inr u, sink') \<Longrightarrow>
     sink' = sink @ [(insert_query database table, query_params logData)]"
  by (auto simp: insertLog_def Let_def split: sum.splits option.splits)

lemma execute_Success:
  assumes "execute env database table executionMode opts inputData sink =
             (Returned [[Success t n b logData]], sink')"
  shows "truthy_number (scriptId (aggregate inputData)) = Some n"
    and "logData = make_log_data env executionMode (aggregate inputData) n"
    and "b = length inputData"
    and "t = toISOString_now env"
    and "sink' = sink @ [(insert_query database table, query_params logData)]"
  using assms
  by (auto simp: execute_def try_block_def Let_def
           split: option.splits prod.splits sum.splits if_splits dest: insertLog_ok)

lemma parseInt_empty: "parseInt [] = NaN"
  by (simp add: parseInt_def)

lemma aggregate_scriptId:
  "scriptId (aggregate []) = None"
  "scriptId (aggregate (r # rs)) =
     (case report_script_id r of
        None \<Rightarrow> None
      | Some s \<Rightarrow> if s = [] then None else Some (parseInt s))"
  by (simp_all add: aggregate_Nil aggregate_Cons fold_identity accumulate_identity
                    capture_first_def initial_state_def report_script_id_def empty_execution_def
                    Let_def
               split: option.splits)

lemma aggregate_firstExecution:
  "firstExecution (aggregate (r # rs)) = Some (obj_or (input_json.execution r) empty_execution)"
  by (simp add: aggregate_Cons fold_identity accumulate_identity capture_first_def Let_def)

lemma no_usable_id_iff:
  "truthy_number (scriptId (aggregate inputData)) = None \<longleftrightarrow> no_usable_id inputData"
proof (cases inputData)
  case Nil
  then show ?thesis by (simp add: aggregate_scriptId no_usable_id_def)
next
  case (Cons r rs)
  show ?thesis
  proof (cases "report_script_id r")
    case None
    with Cons show ?thesis by (simp add: aggregate_scriptId no_usable_id_def)
  next
    case (Some s)
    show ?thesis
    proof (cases "parseInt s")
      case NaN
      with Cons Some show ?thesis by (simp add: aggregate_scriptId no_usable_id_def)
    next
      case (Num k)
      then have "s \<noteq> []" by (auto simp: parseInt_empty)
      with Cons Some Num show ?thesis by (simp add: aggregate_scriptId no_usable_id_def)
    qed
  qed
qed

lemma try_block_no_id:
  "truthy_number (scriptId st) = None \<Longrightarrow>
     try_block env database table executionMode batches st sink =
       (Inl (NodeOperationError missing_script_id_message), sink)"
  by (simp add: try_block_def)

lemma try_block_with_id:
  "truthy_number (scriptId st) = Some n \<Longrightarrow>
     try_block env database table executionMode batches st sink =
       (case insertLog env database table (make_log_data env executionMode st n) sink of
          (Inl e, sink') \<Rightarrow> (Inl e, sink')
        | (Inr u, sink') \<Rightarrow>
            (Inr (Success (toISOString_now env) n batches (make_log_data env executionMode st n)),
             sink'))"
  by (simp add: try_block_def Let_def)

lemma try_block_node_error:
  "fst (try_block env database table executionMode batches st sink) = Inl (NodeOperationError m)
     \<longleftrightarrow> truthy_number (scriptId st) = None \<and> m = missing_script_id_message"
proof (cases "truthy_number (scriptId st)")
  case None
  then show ?thesis by (auto simp: try_block_no_id)
next
  case (Some n)
  then show ?thesis
    by (auto simp: try_block_with_id split: prod.splits sum.splits dest: insertLog_error)
qed

lemma execute_no_id:
  "no_usable_id inputData \<Longrightarrow>
     execute env database table executionMode opts inputData sink =
       (missing_identifier_outcome opts (scriptId (aggregate inputData)), sink)"
  by (simp add: execute_def try_block_no_id no_usable_id_iff missing_identifier_outcome_def)

section \<open>The statements of the specification\<close>

text \<open>
  C1. For every sequence of reports, each of the four totals of the aggregation is the sum
  over the reports of the corresponding field of \<^verbatim>\<open>summary\<close>, a missing field counted
  as 0; and the row of every successful run carries these sums as \<^verbatim>\<open>items_processed\<close>,
  \<^verbatim>\<open>items_new\<close>, \<^verbatim>\<open>items_duplicates\<close> and \<^verbatim>\<open>items_updated\<close>.
\<close>

theorem totals_are_field_sums:
  "totalItemsProcessed (aggregate inputData) = sum_of_field total_input inputData \<and>
   totalItemsNew (aggregate inputData) = sum_of_field new_items inputData \<and>
   totalItemsDuplicates (aggregate inputData) = sum_of_field exact_duplicates inputData \<and>
   totalItemsUpdated (aggregate inputData) = sum_of_field updated_items inputData \<and>
   (execute env database table executionMode opts inputData sink =
      (Returned [[Success t n b logData]], sink') \<longrightarrow>
    items_processed logData = sum_of_field total_input inputData \<and>
    items_new logData = sum_of_field new_items inputData \<and>
    items_duplicates logData = sum_of_field exact_duplicates inputData \<and>
    items_updated logData = sum_of_field updated_items inputData)"
proof -
  have "items_processed logData = sum_of_field total_input inputData \<and>
        items_new logData = sum_of_field new_items inputData \<and>
        items_duplicates logData = sum_of_field exact_duplicates inputData \<and>
        items_updated logData = sum_of_field updated_items inputData"
    if "execute env database table executionMode opts inputData sink =
          (Returned [[Success t n b logData]], sink')"
    using execute_Success(2) [OF that] by (simp add: make_log_data_def aggregate_totals)
  then show ?thesis by (simp only: aggregate_totals) blast
qed

theorem totals_are_field_sums_witness:
  "execute sample_env ''db'' ''workflow_logs'' ''auto'' quiet_options [report_A, report_B] [] =
     (Returned [[Success ''2025-01-01T00:00:00.000Z'' 7 2
        (make_log_data sample_env ''auto'' (aggregate [report_A, report_B]) 7)]],
      [(insert_query ''db'' ''workflow_logs'',
        query_params (make_log_data sample_env ''auto'' (aggregate [report_A, report_B]) 7))]) \<and>
   items_processed (make_log_data sample_env ''auto'' (aggregate [report_A, report_B]) 7) = 15 \<and>
   items_new (make_log_data sample_env ''auto'' (aggregate [report_A, report_B]) 7) = 3 \<and>
   items_duplicates (make_log_data sample_env ''auto'' (aggregate [report_A, report_B]) 7) = 2 \<and>
   items_updated (make_log_data sample_env ''auto'' (aggregate [report_A, report_B]) 7) = 0 \<and>
   sum_of_field total_input [report_A, report_B] = 15 \<and>
   sum_of_field new_items [report_A, report_B] = 3 \<and>
   sum_of_field exact_duplicates [report_A, report_B] = 2 \<and>
   sum_of_field updated_items [report_A, report_B] = 0"
proof -
  have run: "execute sample_env ''db'' ''workflow_logs'' ''auto'' quiet_options [report_A, report_B] [] =
     (Returned [[Success ''2025-01-01T00:00:00.000Z'' 7 2
        (make_log_data sample_env ''auto'' (aggregate [report_A, report_B]) 7)]],
      [(insert_query ''db'' ''workflow_logs'',
        query_params (make_log_data sample_env ''auto'' (aggregate [report_A, report_B]) 7))])"
    by (simp add: run_defs sample_defs)
  have sums: "sum_of_field total_input [report_A, report_B] = 15"
    "sum_of_field new_items [report_A, report_B] = 3"
    "sum_of_field exact_duplicates [report_A, report_B] = 2"
    "sum_of_field updated_items [report_A, report_B] = 0"
    by (simp_all add: sum_of_field_def report_field_def missing_as_zero_def sample_defs
                      empty_summary_def)
  from totals_are_field_sums
         [of "[report_A, report_B]" sample_env "''db''" "''workflow_logs''" "''auto''"
             quiet_options "[]" "''2025-01-01T00:00:00.000Z''" 7 2
             "make_log_data sample_env ''auto'' (aggregate [report_A, report_B]) 7"
             "[(insert_query ''db'' ''workflow_logs'',
                query_params (make_log_data sample_env ''auto'' (aggregate [report_A, report_B]) 7))]"]
       run sums
  show ?thesis by simp
qed


text \<open>
  C2. For every sequence of reports, \<^verbatim>\<open>hasFailures\<close> is true after the loop if and only if
  at least one report has \<^verbatim>\<open>failed_items\<close> greater than 0; the status written into the log
  data is \<^verbatim>\<open>failed\<close> when \<^verbatim>\<open>hasFailures\<close> is true and \<^verbatim>\<open>success\<close> otherwise, so the row
  of a successful run says \<^verbatim>\<open>failed\<close> exactly when some report has failed items.
\<close>

theorem hasFailures_and_status:
  "(hasFailures (aggregate inputData) \<longleftrightarrow> (\<exists>r \<in> set inputData. report_has_failed r)) \<and>
   status (make_log_data env executionMode (aggregate inputData) n) =
     (if hasFailures (aggregate inputData) then ''failed'' else ''success'') \<and>
   (execute env database table executionMode opts inputData sink =
      (Returned [[Success t n b logData]], sink') \<longrightarrow>
    status logData =
      (if \<exists>r \<in> set inputData. report_has_failed r then ''failed'' else ''success''))"
proof -
  have flag: "hasFailures (aggregate inputData) \<longleftrightarrow> (\<exists>r \<in> set inputData. report_has_failed r)"
    by (simp add: aggregate_hasFailures list_ex_iff)
  have row: "status logData =
      (if \<exists>r \<in> set inputData. report_has_failed r then ''failed'' else ''success'')"
    if "execute env database table executionMode opts inputData sink =
          (Returned [[Success t n b logData]], sink')"
    using execute_Success(2) [OF that] flag by (simp add: make_log_data_def)
  have "status (make_log_data env executionMode (aggregate inputData) n) =
     (if hasFailures (aggregate inputData) then ''failed'' else ''success'')"
    by (simp add: make_log_data_def)
  with flag row show ?thesis by blast
qed

theorem hasFailures_and_status_witness:
  "execute sample_env ''db'' ''workflow_logs'' ''auto'' quiet_options [report_A, report_B] [] =
     (Returned [[Success ''2025-01-01T00:00:00.000Z'' 7 2
        (make_log_data sample_env ''auto'' (aggregate [report_A, report_B]) 7)]],
      [(insert_query ''db'' ''workflow_logs'',
        query_params (make_log_data sample_env ''auto'' (aggregate [report_A, report_B]) 7))]) \<and>
   report_has_failed report_B \<and> \<not> report_has_failed report_A \<and>
   hasFailures (aggregate [report_A, report_B]) \<and>
   \<not> hasFailures (aggregate [report_A, report_A]) \<and>
   status (make_log_data sample_env ''auto'' (aggregate [report_A, report_B]) 7) = ''failed''"
proof -
  have run: "execute sample_env ''db'' ''workflow_logs'' ''auto'' quiet_options [report_A, report_B] [] =
     (Returned [[Success ''2025-01-01T00:00:00.000Z'' 7 2
        (make_log_data sample_env ''auto'' (aggregate [report_A, report_B]) 7)]],
      [(insert_query ''db'' ''workflow_logs'',
        query_params (make_log_data sample_env ''auto'' (aggregate [report_A, report_B]) 7))])"
    by (simp add: run_defs sample_defs)
  have failed: "report_has_failed report_B" "\<not> report_has_failed report_A"
    by (simp_all add: report_has_failed_def report_field_def sample_defs empty_summary_def)
  from hasFailures_and_status
         [of "[report_A, report_B]" sample_env "''auto''" 7 "''db''" "''workflow_logs''"
             quiet_options "[]" "''2025-01-01T00:00:00.000Z''" 2
             "make_log_data sample_env ''auto'' (aggregate [report_A, report_B]) 7"
             "[(insert_query ''db'' ''workflow_logs'',
                query_params (make_log_data sample_env ''auto'' (aggregate [report_A, report_B]) 7))]"]
       hasFailures_and_status [of "[report_A, report_A]" sample_env "''auto''" 7]
       run failed
  show ?thesis by simp
qed

text \<open>
  C6. For every sequence of reports, the collected \<^verbatim>\<open>allTransactionItems\<close> is the
  concatenation, in report order, of each report's \<^verbatim>\<open>details.sent_items.items\<close> (missing
  read as no items), each report's items in their own order; the row of a successful run
  carries the serialised array of exactly these items. Items \<open>[a, b]\<close> then \<open>[c]\<close> give
  \<open>[a, b, c]\<close>.
\<close>

theorem allTransactionItems_is_concatenation:
  "allTransactionItems (aggregate inputData) = concat (map report_items inputData) \<and>
   (report_items first = [a, b] \<and> report_items second = [c] \<longrightarrow>
    allTransactionItems (aggregate [first, second]) = [a, b, c]) \<and>
   (execute env database table executionMode opts inputData sink =
      (Returned [[Success t n k logData]], sink') \<longrightarrow>
    full_details logData = JSON_stringify env (JArr (concat (map report_items inputData))))"
proof -
  have "full_details logData = JSON_stringify env (JArr (concat (map report_items inputData)))"
    if "execute env database table executionMode opts inputData sink =
          (Returned [[Success t n k logData]], sink')"
    using execute_Success(2) [OF that] by (simp add: make_log_data_def aggregate_items)
  then show ?thesis by (simp add: aggregate_items)
qed

theorem allTransactionItems_is_concatenation_witness:
  "report_items report_A = [JStr ''a'', JStr ''b''] \<and> report_items report_B = [JStr ''c''] \<and>
   report_items blank_report = [] \<and>
   allTransactionItems (aggregate [report_A, report_B]) = [JStr ''a'', JStr ''b'', JStr ''c''] \<and>
   allTransactionItems (aggregate [report_B, blank_report, report_A]) =
     [JStr ''c'', JStr ''a'', JStr ''b''] \<and>
   execute sample_env ''db'' ''workflow_logs'' ''auto'' quiet_options [report_A, report_B] [] =
     (Returned [[Success ''2025-01-01T00:00:00.000Z'' 7 2
        (make_log_data sample_env ''auto'' (aggregate [report_A, report_B]) 7)]],
      [(insert_query ''db'' ''workflow_logs'',
        query_params (make_log_data sample_env ''auto'' (aggregate [report_A, report_B]) 7))]) \<and>
   full_details (make_log_data sample_env ''auto'' (aggregate [report_A, report_B]) 7) =
     JSON_stringify sample_env (JArr [JStr ''a'', JStr ''b'', JStr ''c''])"
proof -
  have run: "execute sample_env ''db'' ''workflow_logs'' ''auto'' quiet_options [report_A, report_B] [] =
     (Returned [[Success ''2025-01-01T00:00:00.000Z'' 7 2
        (make_log_data sample_env ''auto'' (aggregate [report_A, report_B]) 7)]],
      [(insert_query ''db'' ''workflow_logs'',
        query_params (make_log_data sample_env ''auto'' (aggregate [report_A, report_B]) 7))])"
    by (simp add: run_defs sample_defs)
  have its: "report_items report_A = [JStr ''a'', JStr ''b'']" "report_items report_B = [JStr ''c'']"
    "report_items blank_report = []"
    by (simp_all add: report_items_def sample_defs)
  from allTransactionItems_is_concatenation
         [of "[report_A, report_B]" report_A "JStr ''a''" "JStr ''b''" report_B "JStr ''c''"
             sample_env "''db''" "''workflow_logs''" "''auto''"
             quiet_options "[]" "''2025-01-01T00:00:00.000Z''" 7 2
             "make_log_data sample_env ''auto'' (aggregate [report_A, report_B]) 7"
             "[(insert_query ''db'' ''workflow_logs'',
                query_params (make_log_data sample_env ''auto'' (aggregate [report_A, report_B]) 7))]"]
       allTransactionItems_is_concatenation [of "[report_B, blank_report, report_A]"]
       run its
  show ?thesis by simp
qed

text \<open>
  C3, as the code has it. The run ends in the missing-identifier error exactly when the first
  report gives no usable identifier: there is no first report, \<^verbatim>\<open>execution.script_id\<close> is
  absent or empty, \<^verbatim>\<open>parseInt\<close> finds no number in it, or the number it finds is 0. An
  empty sequence of reports is such a case. In every such case the error is thrown or
  reported according to \<^verbatim>\<open>failOnError\<close>, and nothing is handed to the database driver.
\<close>

theorem missing_identifier_iff_no_usable_id:
  "(fst (try_block env database table executionMode (length inputData) (aggregate inputData) sink)
      = Inl (NodeOperationError missing_script_id_message)
    \<longleftrightarrow> no_usable_id inputData) \<and>
   no_usable_id [] \<and>
   (no_usable_id inputData \<longrightarrow>
    execute env database table executionMode opts inputData sink =
      (missing_identifier_outcome opts (scriptId (aggregate inputData)), sink))"
  by (simp add: try_block_node_error no_usable_id_iff execute_no_id)
     (simp add: no_usable_id_def)

theorem missing_identifier_iff_no_usable_id_witness:
  "no_usable_id [id_report None (Some ''abc'')] \<and>
   fst (try_block sample_env ''db'' ''workflow_logs'' ''auto'' 1
          (aggregate [id_report None (Some ''abc'')]) [])
     = Inl (NodeOperationError missing_script_id_message) \<and>
   execute sample_env ''db'' ''workflow_logs'' ''auto'' quiet_options
       [id_report None (Some ''abc'')] []
     = (Returned [[Failure missing_script_id_message (Some NaN)]], []) \<and>
   execute sample_env ''db'' ''workflow_logs'' ''auto'' loud_options [] []
     = (Thrown (NodeOperationError (''Failed to log execution: '' @ missing_script_id_message)),
        []) \<and>
   \<not> no_usable_id [id_report None (Some ''42'')] \<and>
   fst (try_block sample_env ''db'' ''workflow_logs'' ''auto'' 1
          (aggregate [id_report None (Some ''42'')]) [])
     \<noteq> Inl (NodeOperationError missing_script_id_message)"
proof -
  have no: "no_usable_id [id_report None (Some ''abc'')]" "no_usable_id []"
    and yes: "\<not> no_usable_id [id_report None (Some ''42'')]"
    by (simp_all add: no_usable_id_def report_script_id_def sample_defs parseInt_def
                      is_white_space_def digit_value_def)
  have sid: "scriptId (aggregate [id_report None (Some ''abc'')]) = Some NaN"
    "scriptId (aggregate []) = None"
    by (simp_all add: run_defs sample_defs)
  from missing_identifier_iff_no_usable_id
         [of sample_env "''db''" "''workflow_logs''" "''auto''"
             "[id_report None (Some ''abc'')]" "[]" quiet_options]
       missing_identifier_iff_no_usable_id
         [of sample_env "''db''" "''workflow_logs''" "''auto''" "[]" "[]" loud_options]
       missing_identifier_iff_no_usable_id
         [of sample_env "''db''" "''workflow_logs''" "''auto''"
             "[id_report None (Some ''42'')]" "[]" quiet_options]
       no yes sid
  show ?thesis
    by (simp add: missing_identifier_outcome_def quiet_options_def loud_options_def)
qed

text \<open>
  C3 as stated fails: the identifier \<^verbatim>\<open>"0"\<close> is parseable (\<^verbatim>\<open>parseInt\<close> gives 0), and
  the run still ends in the missing-identifier error.
\<close>

theorem parseable_zero_is_rejected:
  "parseInt ''0'' = Num 0 \<and>
   \<not> lacks_parseable_id [id_report None (Some ''0'')] \<and>
   fst (try_block sample_env ''db'' ''workflow_logs'' ''auto'' 1
          (aggregate [id_report None (Some ''0'')]) [])
     = Inl (NodeOperationError missing_script_id_message) \<and>
   execute sample_env ''db'' ''workflow_logs'' ''auto'' quiet_options
       [id_report None (Some ''0'')] []
     = (Returned [[Failure missing_script_id_message (Some (Num 0))]], [])"
  by (simp add: lacks_parseable_id_def report_script_id_def run_defs sample_defs)

text \<open>
  C10. When the first report's \<^verbatim>\<open>execution.script_id\<close> parses to 0, the run ends in the
  missing-identifier error and nothing is handed to the database driver; and the identifier
  of every successful result, which is also the one in its row, is not 0.
\<close>

theorem zero_identifier_is_missing:
  "(report_script_id first = Some s \<and> parseInt s = Num 0 \<longrightarrow>
    execute env database table executionMode opts (first # rest) sink =
      (missing_identifier_outcome opts (Some (Num 0)), sink)) \<and>
   (execute env database table executionMode opts inputData sink =
      (Returned [[Success t n b logData]], sink') \<longrightarrow>
    n \<noteq> 0 \<and> ILogData.script_id logData = n)"
proof -
  have zero: "execute env database table executionMode opts (first # rest) sink =
      (missing_identifier_outcome opts (Some (Num 0)), sink)"
    if "report_script_id first = Some s" "parseInt s = Num 0"
  proof -
    from that have "s \<noteq> []" by (auto simp: parseInt_empty)
    with that have "scriptId (aggregate (first # rest)) = Some (Num 0)"
      by (simp add: aggregate_scriptId)
    moreover from that have "no_usable_id (first # rest)" by (simp add: no_usable_id_def)
    ultimately show ?thesis by (simp add: execute_no_id)
  qed
  have ok: "n \<noteq> 0 \<and> ILogData.script_id logData = n"
    if run: "execute env database table executionMode opts inputData sink =
          (Returned [[Success t n b logData]], sink')"
  proof -
    have "truthy_number (scriptId (aggregate inputData)) = Some n"
      by (rule execute_Success(1) [OF run])
    then have "n \<noteq> 0"
      by (cases "scriptId (aggregate inputData)" rule: truthy_number.cases)
         (auto split: if_splits)
    moreover have "ILogData.script_id logData = n"
      using execute_Success(2) [OF run] by (simp add: make_log_data_def)
    ultimately show ?thesis by simp
  qed
  from zero ok show ?thesis by blast
qed

theorem zero_identifier_is_missing_witness:
  "report_script_id (id_report (Some ''monthly'') (Some ''0'')) = Some ''0'' \<and>
   parseInt ''0'' = Num 0 \<and>
   execute sample_env ''db'' ''workflow_logs'' ''auto'' quiet_options
       [id_report (Some ''monthly'') (Some ''0''), report_A] []
     = (Returned [[Failure missing_script_id_message (Some (Num 0))]], []) \<and>
   execute sample_env ''db'' ''workflow_logs'' ''auto'' quiet_options [report_A, report_B] [] =
     (Returned [[Success ''2025-01-01T00:00:00.000Z'' 7 2
        (make_log_data sample_env ''auto'' (aggregate [report_A, report_B]) 7)]],
      [(insert_query ''db'' ''workflow_logs'',
        query_params (make_log_data sample_env ''auto'' (aggregate [report_A, report_B]) 7))]) \<and>
   ILogData.script_id (make_log_data sample_env ''auto'' (aggregate [report_A, report_B]) 7) = 7"
proof -
  have run: "execute sample_env ''db'' ''workflow_logs'' ''auto'' quiet_options [report_A, report_B] [] =
     (Returned [[Success ''2025-01-01T00:00:00.000Z'' 7 2
        (make_log_data sample_env ''auto'' (aggregate [report_A, report_B]) 7)]],
      [(insert_query ''db'' ''workflow_logs'',
        query_params (make_log_data sample_env ''auto'' (aggregate [report_A, report_B]) 7))])"
    by (simp add: run_defs sample_defs)
  have zero: "report_script_id (id_report (Some ''monthly'') (Some ''0'')) = Some ''0''"
    "parseInt ''0'' = Num 0"
    by (simp_all add: report_script_id_def sample_defs parseInt_def is_white_space_def
                      digit_value_def)
  from zero_identifier_is_missing
         [of "id_report (Some ''monthly'') (Some ''0'')" "''0''" sample_env "''db''"
             "''workflow_logs''" "''auto''" quiet_options "[report_A]" "[]"
             "[report_A, report_B]" "''2025-01-01T00:00:00.000Z''" 7 2
             "make_log_data sample_env ''auto'' (aggregate [report_A, report_B]) 7"
             "[(insert_query ''db'' ''workflow_logs'',
                query_params (make_log_data sample_env ''auto'' (aggregate [report_A, report_B]) 7))]"]
       run zero
  show ?thesis
    by (simp add: missing_identifier_outcome_def quiet_options_def)
qed

text \<open>
  C4, as the code has it. For every non-empty sequence of reports, the mode written into the
  log data is the node's mode setting when that setting is not \<^verbatim>\<open>auto\<close>; when the setting
  is \<^verbatim>\<open>auto\<close> it is the first report's \<^verbatim>\<open>execution.mode\<close>, or \<^verbatim>\<open>regular\<close> when that
  field is absent or the empty string. With the setting \<^verbatim>\<open>auto\<close>, the first report's
  identifier \<^verbatim>\<open>"42"\<close> and its mode absent, the identifier is 42 and the mode \<^verbatim>\<open>regular\<close>.
\<close>

theorem mode_of_first_report:
  "execution_mode (make_log_data env executionMode (aggregate (first # rest)) n) =
     (if executionMode \<noteq> ''auto'' then executionMode
      else (case report_mode first of
              None \<Rightarrow> ''regular''
            | Some m \<Rightarrow> if m = [] then ''regular'' else m)) \<and>
   (report_script_id first = Some ''42'' \<and> report_mode first = None \<longrightarrow>
    truthy_number (scriptId (aggregate (first # rest))) = Some 42 \<and>
    execution_mode (make_log_data env ''auto'' (aggregate (first # rest)) 42) = ''regular'') \<and>
   (execute env database table executionMode opts (first # rest) sink =
      (Returned [[Success t n b logData]], sink') \<longrightarrow>
    execution_mode logData =
      (if executionMode \<noteq> ''auto'' then executionMode
       else (case report_mode first of
               None \<Rightarrow> ''regular''
             | Some m \<Rightarrow> if m = [] then ''regular'' else m)))"
proof -
  have mode: "execution_mode (make_log_data env' setting (aggregate (first # rest)) k) =
     (if setting \<noteq> ''auto'' then setting
      else (case report_mode first of
              None \<Rightarrow> ''regular''
            | Some m \<Rightarrow> if m = [] then ''regular'' else m))" for env' setting k
    by (cases "input_json.execution first")
       (auto simp: make_log_data_def resolve_mode_def aggregate_firstExecution report_mode_def
                   empty_execution_def
             split: option.splits)
  have id: "truthy_number (scriptId (aggregate (first # rest))) = Some 42"
    if "report_script_id first = Some ''42''"
    using that by (simp add: aggregate_scriptId parseInt_def is_white_space_def digit_value_def)
  have row: "execution_mode logData =
      (if executionMode \<noteq> ''auto'' then executionMode
       else (case report_mode first of
               None \<Rightarrow> ''regular''
             | Some m \<Rightarrow> if m = [] then ''regular'' else m))"
    if "execute env database table executionMode opts (first # rest) sink =
          (Returned [[Success t n b logData]], sink')"
    using execute_Success(2) [OF that] mode by simp
  from mode [of env executionMode n] mode [of env "''auto''" 42] id row
  show ?thesis by simp
qed

theorem mode_of_first_report_witness:
  "report_script_id (id_report None (Some ''42'')) = Some ''42'' \<and>
   report_mode (id_report None (Some ''42'')) = None \<and>
   execute sample_env ''db'' ''workflow_logs'' ''auto'' quiet_options
       [id_report None (Some ''42''), report_B] [] =
     (Returned [[Success ''2025-01-01T00:00:00.000Z'' 42 2
        (make_log_data sample_env ''auto'' (aggregate [id_report None (Some ''42''), report_B]) 42)]],
      [(insert_query ''db'' ''workflow_logs'',
        query_params
          (make_log_data sample_env ''auto''
             (aggregate [id_report None (Some ''42''), report_B]) 42))]) \<and>
   execution_mode
     (make_log_data sample_env ''auto'' (aggregate [id_report None (Some ''42''), report_B]) 42)
     = ''regular'' \<and>
   execution_mode
     (make_log_data sample_env ''monthly''
        (aggregate [id_report (Some ''regular'') (Some ''42'')]) 42)
     = ''monthly'' \<and>
   execution_mode
     (make_log_data sample_env ''auto''
        (aggregate [id_report (Some ''monthly'') (Some ''42'')]) 42)
     = ''monthly''"
proof -
  have run: "execute sample_env ''db'' ''workflow_logs'' ''auto'' quiet_options
       [id_report None (Some ''42''), report_B] [] =
     (Returned [[Success ''2025-01-01T00:00:00.000Z'' 42 2
        (make_log_data sample_env ''auto'' (aggregate [id_report None (Some ''42''), report_B]) 42)]],
      [(insert_query ''db'' ''workflow_logs'',
        query_params
          (make_log_data sample_env ''auto''
             (aggregate [id_report None (Some ''42''), report_B]) 42))])"
    by (simp add: run_defs sample_defs)
  have first: "report_script_id (id_report None (Some ''42'')) = Some ''42''"
    "report_mode (id_report m s) = m" for m s
    by (simp_all add: report_script_id_def report_mode_def id_report_def)
  from mode_of_first_report
         [of sample_env "''auto''" "id_report None (Some ''42'')" "[report_B]" 42
             "''db''" "''workflow_logs''" quiet_options "[]" "''2025-01-01T00:00:00.000Z''" 2
             "make_log_data sample_env ''auto''
                (aggregate [id_report None (Some ''42''), report_B]) 42"
             "[(insert_query ''db'' ''workflow_logs'',
                query_params
                  (make_log_data sample_env ''auto''
                     (aggregate [id_report None (Some ''42''), report_B]) 42))]"]
       mode_of_first_report
         [of sample_env "''monthly''" "id_report (Some ''regular'') (Some ''42'')" "[]" 42]
       mode_of_first_report
         [of sample_env "''auto''" "id_report (Some ''monthly'') (Some ''42'')" "[]" 42]
       run first
  show ?thesis by simp
qed

text \<open>
  C4 as stated fails: with the setting \<^verbatim>\<open>auto\<close> and a first report whose
  \<^verbatim>\<open>execution.mode\<close> is present and empty, the mode of the row is \<^verbatim>\<open>regular\<close>, not the
  report's mode.
\<close>

theorem empty_mode_becomes_regular:
  "report_mode (id_report (Some []) (Some ''42'')) = Some [] \<and>
   spec_mode ''auto'' (id_report (Some []) (Some ''42'')) = [] \<and>
   execute sample_env ''db'' ''workflow_logs'' ''auto'' quiet_options
       [id_report (Some []) (Some ''42'')] [] =
     (Returned [[Success ''2025-01-01T00:00:00.000Z'' 42 1
        (make_log_data sample_env ''auto'' (aggregate [id_report (Some []) (Some ''42'')]) 42)]],
      [(insert_query ''db'' ''workflow_logs'',
        query_params
          (make_log_data sample_env ''auto''
             (aggregate [id_report (Some []) (Some ''42'')]) 42))]) \<and>
   execution_mode
     (make_log_data sample_env ''auto'' (aggregate [id_report (Some []) (Some ''42'')]) 42)
     = ''regular'' \<and>
   execution_mode
     (make_log_data sample_env ''auto'' (aggregate [id_report (Some []) (Some ''42'')]) 42)
     \<noteq> spec_mode ''auto'' (id_report (Some []) (Some ''42''))"
  by (simp add: report_mode_def spec_mode_def run_defs sample_defs)

text \<open>
  C5. The statement is that reports in another order, the first one kept, give the same
  merged event summary and totals, each event's count being the sum of its counts over the
  reports. The code does not do this for an event that is named as a member of
  \<^verbatim>\<open>Object.prototype\<close>. After a first report with identifier 7, the reports
  \<^verbatim>\<open>{constructor: 3}\<close> and \<^verbatim>\<open>{constructor: 4}\<close> leave under \<^verbatim>\<open>constructor\<close> the source text
  of the function \<^verbatim>\<open>Object\<close> followed by \<open>34\<close> in one order and by \<open>43\<close> in the other,
  where the counts add up to 7; the text goes into the row. An event named \<^verbatim>\<open>__proto__\<close> is
  not stored at all.
\<close>

theorem constructor_event_depends_on_order:
  "mset [event_report [(''constructor'', 3)], event_report [(''constructor'', 4)]] =
     mset [event_report [(''constructor'', 4)], event_report [(''constructor'', 3)]] \<and>
   distinct_keys (event_report [(''constructor'', 3)]) \<and>
   distinct_keys (event_report [(''constructor'', 4)]) \<and>
   report_event_count ''constructor'' (id_report None (Some ''7'')) +
     report_event_count ''constructor'' (event_report [(''constructor'', 3)]) +
     report_event_count ''constructor'' (event_report [(''constructor'', 4)]) = 7 \<and>
   mergedEventSummary
     (aggregate [id_report None (Some ''7''), event_report [(''constructor'', 3)],
                 event_report [(''constructor'', 4)]]) =
     [(''constructor'', JsString ''function Object() { [native code] }34'')] \<and>
   mergedEventSummary
     (aggregate [id_report None (Some ''7''), event_report [(''constructor'', 4)],
                 event_report [(''constructor'', 3)]]) =
     [(''constructor'', JsString ''function Object() { [native code] }43'')] \<and>
   map_of (mergedEventSummary
             (aggregate [id_report None (Some ''7''), event_report [(''constructor'', 3)],
                         event_report [(''constructor'', 4)]])) \<noteq>
   map_of (mergedEventSummary
             (aggregate [id_report None (Some ''7''), event_report [(''constructor'', 4)],
                         event_report [(''constructor'', 3)]])) \<and>
   ILogData.event_summary
     (make_log_data sample_env ''auto''
        (aggregate [id_report None (Some ''7''), event_report [(''constructor'', 3)],
                    event_report [(''constructor'', 4)]]) 7) =
     ''{'' @ dq @ ''constructor'' @ dq @ '':'' @
     dq @ ''function Object() { [native code] }34'' @ dq @ ''}'' \<and>
   mergedEventSummary
     (aggregate [id_report None (Some ''7''), event_report [(''__proto__'', 2), (''click'', 1)]]) =
     [(''click'', JsNumber 1)]"
proof -
  have perm: "mset [event_report [(''constructor'', 3)], event_report [(''constructor'', 4)]] =
     mset [event_report [(''constructor'', 4)], event_report [(''constructor'', 3)]]"
    by (simp add: add_mset_commute)
  have keys: "distinct_keys (event_report [(''constructor'', 3)])"
    "distinct_keys (event_report [(''constructor'', 4)])"
    by (simp_all add: distinct_keys_def report_entries_def report_field_def event_report_def
                      empty_summary_def)
  have counts: "report_event_count ''constructor'' (id_report None (Some ''7'')) = 0"
    "report_event_count ''constructor'' (event_report [(''constructor'', 3)]) = 3"
    "report_event_count ''constructor'' (event_report [(''constructor'', 4)]) = 4"
    by (simp_all add: report_event_count_def report_entries_def report_field_def
                      missing_as_zero_def event_report_def id_report_def empty_summary_def)
  have one: "mergedEventSummary
     (aggregate [id_report None (Some ''7''), event_report [(''constructor'', 3)],
                 event_report [(''constructor'', 4)]]) =
     [(''constructor'', JsString ''function Object() { [native code] }34'')]"
    by (simp add: run_defs sample_defs text_defs)
  have other: "mergedEventSummary
     (aggregate [id_report None (Some ''7''), event_report [(''constructor'', 4)],
                 event_report [(''constructor'', 3)]]) =
     [(''constructor'', JsString ''function Object() { [native code] }43'')]"
    by (simp add: run_defs sample_defs text_defs)
  have differ: "map_of (mergedEventSummary
             (aggregate [id_report None (Some ''7''), event_report [(''constructor'', 3)],
                         event_report [(''constructor'', 4)]])) \<noteq>
   map_of (mergedEventSummary
             (aggregate [id_report None (Some ''7''), event_report [(''constructor'', 4)],
                         event_report [(''constructor'', 3)]]))"
    unfolding one other by (auto simp: fun_eq_iff)
  have cell: "ILogData.event_summary
     (make_log_data sample_env ''auto''
        (aggregate [id_report None (Some ''7''), event_report [(''constructor'', 3)],
                    event_report [(''constructor'', 4)]]) 7) =
     ''{'' @ dq @ ''constructor'' @ dq @ '':'' @
     dq @ ''function Object() { [native code] }34'' @ dq @ ''}''"
    unfolding make_log_data_def one
    by (simp add: event_summary_json_def sample_env_def text_defs digit_value_def)
  have proto: "mergedEventSummary
     (aggregate [id_report None (Some ''7''), event_report [(''__proto__'', 2), (''click'', 1)]]) =
     [(''click'', JsNumber 1)]"
    by (simp add: run_defs sample_defs text_defs)
  from perm keys counts one other differ cell proto show ?thesis by simp
qed

text \<open>
  C7. When the body of \<^verbatim>\<open>try\<close> fails with an error, \<^verbatim>\<open>execute\<close> throws a
  \<^verbatim>\<open>NodeOperationError\<close> that carries the error's message if \<^verbatim>\<open>failOnError\<close> is set, and
  otherwise returns the single result \<^verbatim>\<open>{success: false, error, script_id}\<close> with the
  error's message and the value of \<^verbatim>\<open>scriptId\<close>. The body fails in this way both when the
  identifier is missing and when \<^verbatim>\<open>insertLog\<close> fails.
\<close>

theorem failure_is_returned_unless_failOnError:
  "(try_block env database table executionMode (length inputData) (aggregate inputData) sink =
      (Inl e, sink') \<longrightarrow>
    execute env database table executionMode opts inputData sink =
      (if opt_true (failOnError opts)
       then Thrown (NodeOperationError (''Failed to log execution: '' @ message e))
       else Returned [[Failure (message e) (scriptId (aggregate inputData))]],
       sink')) \<and>
   (no_usable_id inputData \<longrightarrow>
    try_block env database table executionMode (length inputData) (aggregate inputData) sink =
      (Inl (NodeOperationError missing_script_id_message), sink)) \<and>
   (truthy_number (scriptId (aggregate inputData)) = Some n \<and>
    insertLog env database table (make_log_data env executionMode (aggregate inputData) n) sink =
      (Inl e, sink') \<longrightarrow>
    try_block env database table executionMode (length inputData) (aggregate inputData) sink =
      (Inl e, sink') \<and>
    scriptId (aggregate inputData) = Some (Num n))"
proof -
  have num: "scriptId (aggregate inputData) = Some (Num n)"
    if "truthy_number (scriptId (aggregate inputData)) = Some n"
    using that
    by (cases "scriptId (aggregate inputData)" rule: truthy_number.cases)
       (auto split: if_splits)
  show ?thesis
    by (auto simp: execute_def try_block_no_id try_block_with_id no_usable_id_iff num)
qed

theorem failure_is_returned_unless_failOnError_witness:
  "try_block failing_env ''db'' ''workflow_logs'' ''auto'' (length [report_A, report_B])
       (aggregate [report_A, report_B]) [] =
     (Inl (DriverError ''ER_NO_SUCH_TABLE''),
      [(insert_query ''db'' ''workflow_logs'',
        query_params (make_log_data failing_env ''auto'' (aggregate [report_A, report_B]) 7))]) \<and>
   execute failing_env ''db'' ''workflow_logs'' ''auto'' quiet_options [report_A, report_B] [] =
     (Returned [[Failure ''ER_NO_SUCH_TABLE'' (Some (Num 7))]],
      [(insert_query ''db'' ''workflow_logs'',
        query_params (make_log_data failing_env ''auto'' (aggregate [report_A, report_B]) 7))]) \<and>
   execute failing_env ''db'' ''workflow_logs'' ''auto'' loud_options [report_A, report_B] [] =
     (Thrown (NodeOperationError ''Failed to log execution: ER_NO_SUCH_TABLE''),
      [(insert_query ''db'' ''workflow_logs'',
        query_params (make_log_data failing_env ''auto'' (aggregate [report_A, report_B]) 7))]) \<and>
   no_usable_id [blank_report] \<and>
   try_block sample_env ''db'' ''workflow_logs'' ''auto'' (length [blank_report])
       (aggregate [blank_report]) [] =
     (Inl (NodeOperationError missing_script_id_message), [])"
proof -
  have failing: "try_block failing_env ''db'' ''workflow_logs'' ''auto'' (length [report_A, report_B])
       (aggregate [report_A, report_B]) [] =
     (Inl (DriverError ''ER_NO_SUCH_TABLE''),
      [(insert_query ''db'' ''workflow_logs'',
        query_params (make_log_data failing_env ''auto'' (aggregate [report_A, report_B]) 7))])"
    by (simp add: run_defs sample_defs)
  have blank: "no_usable_id [blank_report]"
    by (simp add: no_usable_id_def report_script_id_def blank_report_def)
  have sid: "scriptId (aggregate [report_A, report_B]) = Some (Num 7)"
    by (simp add: run_defs sample_defs)
  note inst = failure_is_returned_unless_failOnError
                [where env = failing_env and database = "''db''" and table = "''workflow_logs''"
                   and executionMode = "''auto''" and inputData = "[report_A, report_B]"
                   and sink = "[]" and e = "DriverError ''ER_NO_SUCH_TABLE''" and n = 7
                   and sink' = "[(insert_query ''db'' ''workflow_logs'',
                       query_params
                         (make_log_data failing_env ''auto'' (aggregate [report_A, report_B]) 7))]"]
  have quiet: "execute failing_env ''db'' ''workflow_logs'' ''auto'' quiet_options
        [report_A, report_B] [] =
     (Returned [[Failure ''ER_NO_SUCH_TABLE'' (Some (Num 7))]],
      [(insert_query ''db'' ''workflow_logs'',
        query_params (make_log_data failing_env ''auto'' (aggregate [report_A, report_B]) 7))])"
    using mp [OF conjunct1 [OF inst [where opts = quiet_options]] failing]
    by (simp add: quiet_options_def sid)
  have loud: "execute failing_env ''db'' ''workflow_logs'' ''auto'' loud_options
        [report_A, report_B] [] =
     (Thrown (NodeOperationError ''Failed to log execution: ER_NO_SUCH_TABLE''),
      [(insert_query ''db'' ''workflow_logs'',
        query_params (make_log_data failing_env ''auto'' (aggregate [report_A, report_B]) 7))])"
    using mp [OF conjunct1 [OF inst [where opts = loud_options]] failing]
    by (simp add: loud_options_def)
  have missing: "try_block sample_env ''db'' ''workflow_logs'' ''auto'' (length [blank_report])
       (aggregate [blank_report]) [] =
     (Inl (NodeOperationError missing_script_id_message), [])"
    by (rule mp [OF conjunct1 [OF conjunct2
           [OF failure_is_returned_unless_failOnError
               [where inputData = "[blank_report]" and sink = "[]"]]] blank])
  from failing quiet loud blank missing show ?thesis by (intro conjI)
qed

text \<open>
  C8. A run hands at most one row to the database driver, and only when the identifier is
  usable. The statement names the 11 columns \<^verbatim>\<open>script_id\<close>, \<^verbatim>\<open>execution_mode\<close>,
  \<^verbatim>\<open>execution_type\<close>, \<^verbatim>\<open>workflow_name\<close>, \<^verbatim>\<open>status\<close>, \<^verbatim>\<open>items_processed\<close>, \<^verbatim>\<open>items_new\<close>,
  \<^verbatim>\<open>items_duplicates\<close>, \<^verbatim>\<open>items_updated\<close>, \<^verbatim>\<open>event_summary\<close>, \<^verbatim>\<open>full_details\<close> in this
  order with 11 placeholders. The row has 11 values in the same order: the identifier, the
  resolved mode, the execution type, the workflow name, the status, the four sums, the text
  \<^verbatim>\<open>JSON.stringify\<close> returns for the object of the merged event summary (its properties in
  the order the object lists them) and the text it returns for the array of the collected
  items.
\<close>

theorem row_has_eleven_columns_in_order:
  "(truthy_number (scriptId (aggregate inputData)) = Some m \<and> driver_connects env database \<longrightarrow>
    length (snd (execute env database table executionMode opts inputData sink)) =
      Suc (length sink)) \<and>
   (snd (execute env database table executionMode opts inputData sink) = sink \<or>
    (\<exists>n. truthy_number (scriptId (aggregate inputData)) = Some n \<and>
        snd (execute env database table executionMode opts inputData sink) =
          sink @
          [(InsertInto database table
              [''script_id'', ''execution_mode'', ''execution_type'', ''workflow_name'',
               ''status'', ''items_processed'', ''items_new'', ''items_duplicates'',
               ''items_updated'', ''event_summary'', ''full_details'']
              11,
            [SqlNumber n,
             SqlString (resolve_mode executionMode (firstExecution (aggregate inputData))),
             SqlString (if getMode env = ''manual'' then ''manual'' else ''scheduled''),
             SqlString (str_or (getWorkflow_name env) ''Unknown''),
             SqlString (if list_ex report_has_failed inputData then ''failed'' else ''success''),
             SqlNumber (sum_of_field total_input inputData),
             SqlNumber (sum_of_field new_items inputData),
             SqlNumber (sum_of_field exact_duplicates inputData),
             SqlNumber (sum_of_field updated_items inputData),
             SqlString
               (JSON_stringify env
                  (JObj (map (\<lambda>entry. (fst entry,
                                       case snd entry of
                                         JsNumber k \<Rightarrow> JNum k
                                       | JsString text \<Rightarrow> JStr text))
                          (own_property_entries (mergedEventSummary (aggregate inputData)))))),
             SqlString (JSON_stringify env (JArr (concat (map report_items inputData))))])]))"
proof (cases "truthy_number (scriptId (aggregate inputData))")
  case None
  then show ?thesis by (simp add: execute_def try_block_no_id)
next
  case (Some n)
  have handed: "length (snd (insertLog env database table logData sink)) = Suc (length sink)"
    if "driver_connects env database" for logData
    using that
    by (auto simp: driver_connects_def insertLog_def Let_def split: sum.splits option.splits)
  let ?logData = "make_log_data env executionMode (aggregate inputData) n"
  have same: "snd (execute env database table executionMode opts inputData sink) =
              snd (insertLog env database table ?logData sink)"
    by (cases "insertLog env database table ?logData sink")
       (auto simp: execute_def try_block_with_id [OF Some] Let_def split: sum.splits)
  have value_json: "primitive_json v = (case v of JsNumber k \<Rightarrow> JNum k | JsString text \<Rightarrow> JStr text)"
    for v by (cases v) simp_all
  have row: "(insert_query database table, query_params ?logData) =
     (InsertInto database table
              [''script_id'', ''execution_mode'', ''execution_type'', ''workflow_name'',
               ''status'', ''items_processed'', ''items_new'', ''items_duplicates'',
               ''items_updated'', ''event_summary'', ''full_details'']
              11,
            [SqlNumber n,
             SqlString (resolve_mode executionMode (firstExecution (aggregate inputData))),
             SqlString (if getMode env = ''manual'' then ''manual'' else ''scheduled''),
             SqlString (str_or (getWorkflow_name env) ''Unknown''),
             SqlString (if list_ex report_has_failed inputData then ''failed'' else ''success''),
             SqlNumber (sum_of_field total_input inputData),
             SqlNumber (sum_of_field new_items inputData),
             SqlNumber (sum_of_field exact_duplicates inputData),
             SqlNumber (sum_of_field updated_items inputData),
             SqlString
               (JSON_stringify env
                  (JObj (map (\<lambda>entry. (fst entry,
                                       case snd entry of
                                         JsNumber k \<Rightarrow> JNum k
                                       | JsString text \<Rightarrow> JStr text))
                          (own_property_entries (mergedEventSummary (aggregate inputData)))))),
             SqlString (JSON_stringify env (JArr (concat (map report_items inputData))))])"
    by (simp add: insert_query_def query_params_def make_log_data_def event_summary_json_def
                  aggregate_totals aggregate_hasFailures aggregate_items value_json)
  from insertLog_sink [of env database table ?logData sink] same Some handed [of ?logData]
  show ?thesis unfolding row by auto
qed

theorem row_has_eleven_columns_in_order_witness:
  "truthy_number
     (scriptId (aggregate [report_A, report_B, event_report [(''sale'', 1), (''404'', 2), (''7'', 5)]]))
     = Some 7 \<and>
   driver_connects sample_env ''db'' \<and>
   snd (execute sample_env ''db'' ''workflow_logs'' ''auto'' quiet_options
          [report_A, report_B, event_report [(''sale'', 1), (''404'', 2), (''7'', 5)]] [])
     = [(InsertInto ''db'' ''workflow_logs''
           [''script_id'', ''execution_mode'', ''execution_type'', ''workflow_name'', ''status'',
            ''items_processed'', ''items_new'', ''items_duplicates'', ''items_updated'',
            ''event_summary'', ''full_details'']
           11,
         [SqlNumber 7, SqlString ''regular'', SqlString ''manual'', SqlString ''Daily import'',
          SqlString ''failed'', SqlNumber 15, SqlNumber 3, SqlNumber 2, SqlNumber 0,
          SqlString (''{'' @ dq @ ''7'' @ dq @ '':5,'' @ dq @ ''404'' @ dq @ '':2,'' @
                     dq @ ''click'' @ dq @ '':3,'' @ dq @ ''lead'' @ dq @ '':1,'' @
                     dq @ ''sale'' @ dq @ '':5}''),
          SqlString (''['' @ dq @ ''a'' @ dq @ '','' @ dq @ ''b'' @ dq @ '','' @
                     dq @ ''c'' @ dq @ '']'')])]"
proof -
  let ?inputs = "[report_A, report_B, event_report [(''sale'', 1), (''404'', 2), (''7'', 5)]]"
  have id: "truthy_number (scriptId (aggregate ?inputs)) = Some 7"
    by (simp add: run_defs sample_defs)
  have driver: "driver_connects sample_env ''db''"
    by (simp add: driver_connects_def sample_env_def)
  have merged: "mergedEventSummary (aggregate ?inputs) =
      [(''click'', JsNumber 3), (''lead'', JsNumber 1), (''sale'', JsNumber 5),
       (''404'', JsNumber 2), (''7'', JsNumber 5)]"
    by (simp add: run_defs sample_defs)
  have listed: "own_property_entries
      [(''click'', JsNumber 3), (''lead'', JsNumber 1), (''sale'', JsNumber 5),
       (''404'', JsNumber 2), (''7'', JsNumber 5)] =
      [(''7'', JsNumber 5), (''404'', JsNumber 2), (''click'', JsNumber 3),
       (''lead'', JsNumber 1), (''sale'', JsNumber 5)]"
    by (simp add: text_defs digit_value_def)
  have cells: "resolve_mode ''auto'' (firstExecution (aggregate ?inputs)) = ''regular''"
    "list_ex report_has_failed ?inputs = True"
    "sum_of_field total_input ?inputs = 15" "sum_of_field new_items ?inputs = 3"
    "sum_of_field exact_duplicates ?inputs = 2" "sum_of_field updated_items ?inputs = 0"
    "concat (map report_items ?inputs) = [JStr ''a'', JStr ''b'', JStr ''c'']"
    by (simp_all add: run_defs sample_defs report_has_failed_def sum_of_field_def
                      report_field_def missing_as_zero_def report_items_def)
  have host: "getMode sample_env = ''manual''" "getWorkflow_name sample_env = Some ''Daily import''"
    by (simp_all add: sample_env_def)
  have texts: "JSON_stringify sample_env
        (JObj [(''7'', JNum 5), (''404'', JNum 2), (''click'', JNum 3), (''lead'', JNum 1),
               (''sale'', JNum 5)]) =
      ''{'' @ dq @ ''7'' @ dq @ '':5,'' @ dq @ ''404'' @ dq @ '':2,'' @
      dq @ ''click'' @ dq @ '':3,'' @ dq @ ''lead'' @ dq @ '':1,'' @ dq @ ''sale'' @ dq @ '':5}''"
    "JSON_stringify sample_env (JArr [JStr ''a'', JStr ''b'', JStr ''c'']) =
      ''['' @ dq @ ''a'' @ dq @ '','' @ dq @ ''b'' @ dq @ '','' @ dq @ ''c'' @ dq @ '']''"
    by (simp_all add: sample_env_def text_defs)
  note row = row_has_eleven_columns_in_order
               [where env = sample_env and database = "''db''" and table = "''workflow_logs''"
                  and executionMode = "''auto''" and opts = quiet_options
                  and inputData = ?inputs and sink = "[]" and m = 7]
  from conjunct1 [OF row] id driver
  have handed: "snd (execute sample_env ''db'' ''workflow_logs'' ''auto'' quiet_options ?inputs []) \<noteq> []"
    by auto
  note shape = conjunct2 [OF row, unfolded merged listed cells]
  from shape handed id have run: "snd (execute sample_env ''db'' ''workflow_logs'' ''auto'' quiet_options ?inputs [])
     = [(InsertInto ''db'' ''workflow_logs''
           [''script_id'', ''execution_mode'', ''execution_type'', ''workflow_name'', ''status'',
            ''items_processed'', ''items_new'', ''items_duplicates'', ''items_updated'',
            ''event_summary'', ''full_details'']
           11,
         [SqlNumber 7, SqlString ''regular'', SqlString ''manual'', SqlString ''Daily import'',
          SqlString ''failed'', SqlNumber 15, SqlNumber 3, SqlNumber 2, SqlNumber 0,
          SqlString (''{'' @ dq @ ''7'' @ dq @ '':5,'' @ dq @ ''404'' @ dq @ '':2,'' @
                     dq @ ''click'' @ dq @ '':3,'' @ dq @ ''lead'' @ dq @ '':1,'' @
                     dq @ ''sale'' @ dq @ '':5}''),
          SqlString (''['' @ dq @ ''a'' @ dq @ '','' @ dq @ ''b'' @ dq @ '','' @
                     dq @ ''c'' @ dq @ '']'')])]"
    by (auto simp: host texts)
  from id driver run show ?thesis by (intro conjI)
qed

text \<open>
  C9. A report in which every optional field is missing leaves the state of the loop as it
  is: it adds 0 to each total, no event counts and no items, and does not change
  \<^verbatim>\<open>hasFailures\<close>. In the first iteration it sets \<^verbatim>\<open>firstExecution\<close> to the empty object and
  \<^verbatim>\<open>scriptId\<close> to \<^verbatim>\<open>null\<close>; in any later position the whole aggregation is the one of the
  sequence without it. The loop body has no failing branch: every property it reads is
  read from an object, through \<^verbatim>\<open>|| {}\<close> or \<^verbatim>\<open>?.\<close>.
\<close>

theorem report_without_fields_adds_nothing:
  assumes "all_fields_missing r"
  shows "accumulate r st = st \<and>
         totalItemsProcessed (loop_body i r st) = totalItemsProcessed st \<and>
         totalItemsNew (loop_body i r st) = totalItemsNew st \<and>
         totalItemsDuplicates (loop_body i r st) = totalItemsDuplicates st \<and>
         totalItemsUpdated (loop_body i r st) = totalItemsUpdated st \<and>
         mergedEventSummary (loop_body i r st) = mergedEventSummary st \<and>
         allTransactionItems (loop_body i r st) = allTransactionItems st \<and>
         hasFailures (loop_body i r st) = hasFailures st \<and>
         loop_body i r st =
           (if i = 0 then st\<lparr>firstExecution := Some empty_execution, scriptId := None\<rparr> else st) \<and>
         (before \<noteq> [] \<longrightarrow> aggregate (before @ r # after) = aggregate (before @ after))"
proof -
  from assms
  have s: "input_json.summary r = None \<or> input_json.summary r = Some empty_summary"
    and e: "input_json.execution r = None \<or> input_json.execution r = Some empty_execution"
    and d: "input_json.details r = None \<or> input_json.details r = Some empty_details \<or>
            input_json.details r = Some \<lparr>sent_items = Some \<lparr>items = None\<rparr>\<rparr>"
    by (simp_all add: all_fields_missing_def)
  have acc: "accumulate r st' = st'" for st'
    using s d by (auto simp: accumulate_def empty_summary_def empty_details_def)
  have cap: "capture_first r st = st\<lparr>firstExecution := Some empty_execution, scriptId := None\<rparr>"
    using e by (auto simp: capture_first_def empty_execution_def)
  have body: "loop_body i r st =
      (if i = 0 then st\<lparr>firstExecution := Some empty_execution, scriptId := None\<rparr> else st)"
    by (simp add: loop_body_def acc cap)
  have skip: "aggregate (before @ r # after) = aggregate (before @ after)" if "before \<noteq> []"
  proof -
    from that obtain x xs where "before = x # xs" by (cases before) auto
    then show ?thesis by (simp add: aggregate_Cons acc)
  qed
  from acc [of st] body skip show ?thesis by simp
qed

theorem report_without_fields_adds_nothing_witness:
  "all_fields_missing blank_report \<and>
   all_fields_missing
     \<lparr>summary = Some empty_summary, execution = Some empty_execution,
      details = Some \<lparr>sent_items = Some \<lparr>items = None\<rparr>\<rparr>\<rparr> \<and>
   accumulate blank_report (aggregate [report_A, report_B]) = aggregate [report_A, report_B] \<and>
   loop_body 0 blank_report initial_state =
     initial_state\<lparr>firstExecution := Some empty_execution, scriptId := None\<rparr> \<and>
   aggregate [report_A, blank_report, report_B] = aggregate [report_A, report_B] \<and>
   aggregate [blank_report] =
     initial_state\<lparr>firstExecution := Some empty_execution, scriptId := None\<rparr>"
proof -
  have blank: "all_fields_missing blank_report"
    "all_fields_missing
       \<lparr>summary = Some empty_summary, execution = Some empty_execution,
        details = Some \<lparr>sent_items = Some \<lparr>items = None\<rparr>\<rparr>\<rparr>"
    by (simp_all add: all_fields_missing_def blank_report_def)
  have one: "aggregate [blank_report] = loop_body 0 blank_report initial_state"
    by (simp add: aggregate_Cons loop_body_def)
  from report_without_fields_adds_nothing
         [OF blank(1), of "aggregate [report_A, report_B]" 0 "[report_A]" "[report_B]"]
       report_without_fields_adds_nothing [OF blank(1), of initial_state 0]
       blank one
  show ?thesis by simp
qed

end
